theory Spec2Isabelle
  imports Complex_Main "HOL-Library.Log_Nat"
begin

section \<open>Python values handled by the bridge\<close>

text \<open>
  The bridge (\<^verbatim>\<open>src/services/clobBridge.py\<close>) moves JSON-like Python values between the
  external trading client and the HTTP caller. A float is a finite value or one of the
  three special values; a dict is an association list read with \<open>map_of\<close>, its order
  being the order in which the source's dict literal lists the keys.
\<close>

datatype pyfloat = Finite real | PosInf | NegInf | NaN

datatype pyval =
    PNone
  | PBool bool
  | PInt int
  | PFloat pyfloat
  | PStr string
  | PList "pyval list"
  | PDict "(string \<times> pyval) list"

fun type_name :: "pyval \<Rightarrow> string" where
  "type_name PNone = ''NoneType''"
| "type_name (PBool _) = ''bool''"
| "type_name (PInt _) = ''int''"
| "type_name (PFloat _) = ''float''"
| "type_name (PStr _) = ''str''"
| "type_name (PList _) = ''list''"
| "type_name (PDict _) = ''dict''"

text \<open>
  Every exception the handlers can meet is an instance of Python's \<open>Exception\<close>:
  \<^item> \<open>ClientError m\<close>: any exception raised inside the external client, \<open>m\<close> being its
    \<open>str()\<close>;
  \<^item> \<open>HTTPException status detail\<close>: FastAPI's exception, raised by the handlers;
  \<^item> the errors Python itself raises in the handlers' expressions: a \<open>.get\<close> on an object
    that has none, an iteration over a non-iterable, and the three failures of \<open>float()\<close>;
  \<^item> \<open>ResponseValidationError\<close>: FastAPI's rejection of a returned body that does not fit
    the declared \<open>response_model\<close>.
\<close>

datatype pyexn =
    ClientError string
  | HTTPException nat string
  | AttributeError string string
  | TypeError_not_iterable string
  | TypeError_float string
  | ValueError_float string
  | OverflowError
  | ResponseValidationError

text \<open>
  What the source leaves to the Python runtime and to the libraries, and what differs
  between their versions, is a parameter: the parsing of a string by \<open>float()\<close>, the text
  \<open>str(e)\<close> of the exceptions that are not the client's, and the coercion of a body to the
  \<open>BalanceResponse\<close> model (a float and a string).
\<close>

record runtime =
  float_of_str :: "string \<Rightarrow> pyfloat option"
  exception_str :: "pyexn \<Rightarrow> string"
  BalanceResponse :: "pyval \<Rightarrow> pyval option"

definition py_str :: "runtime \<Rightarrow> pyexn \<Rightarrow> string" where
  "py_str rt e = (case e of ClientError m \<Rightarrow> m | _ \<Rightarrow> exception_str rt e)"

text \<open>Sequencing of expressions that may raise.\<close>

definition bindE :: "pyexn + 'a \<Rightarrow> ('a \<Rightarrow> pyexn + 'b) \<Rightarrow> pyexn + 'b" where
  "bindE r f = (case r of Inl e \<Rightarrow> Inl e | Inr x \<Rightarrow> f x)"

text \<open>\<open>obj.get(key, default)\<close>: only a dict has the method.\<close>

fun py_get :: "pyval \<Rightarrow> string \<Rightarrow> pyval \<Rightarrow> pyexn + pyval" where
  "py_get (PDict kvs) k d = Inr (case map_of kvs k of None \<Rightarrow> d | Some v \<Rightarrow> v)"
| "py_get v k d = Inl (AttributeError (type_name v) ''get'')"

text \<open>
  \<open>for x in obj\<close>: a list gives its elements, a dict its keys, a string its characters
  (as one-character strings); nothing else is iterable.
\<close>

fun py_iter :: "pyval \<Rightarrow> pyexn + pyval list" where
  "py_iter (PList xs) = Inr xs"
| "py_iter (PDict kvs) = Inr (map PStr (remdups (map fst kvs)))"
| "py_iter (PStr s) = Inr (map (\<lambda>c. PStr [c]) s)"
| "py_iter v = Inl (TypeError_not_iterable (type_name v))"

text \<open>
  \<open>float(i)\<close> for an int: exact up to 53 bits, rounded to the nearest double (ties to
  even) beyond, \<open>OverflowError\<close> when the result would not be a finite double.
\<close>

definition float_of_int :: "int \<Rightarrow> pyexn + pyfloat" where
  "float_of_int i =
     (let a = \<bar>i\<bar>; e = bitlen a - 53 in
      if e \<le> 0 then Inr (Finite (of_int i))
      else
        let d = 2 ^ nat e; q = a div d; r = a mod d; h = d div 2;
            q' = (if h < r \<or> (r = h \<and> odd q) then q + 1 else q);
            m = q' * d
        in if 2 ^ 1024 \<le> m then Inl OverflowError else Inr (Finite (of_int (sgn i * m))))"

text \<open>The builtin \<open>float(x)\<close>.\<close>

fun py_float :: "runtime \<Rightarrow> pyval \<Rightarrow> pyexn + pyfloat" where
  "py_float rt (PFloat f) = Inr f"
| "py_float rt (PInt i) = float_of_int i"
| "py_float rt (PBool b) = Inr (Finite (if b then 1 else 0))"
| "py_float rt (PStr s) =
     (case float_of_str rt s of None \<Rightarrow> Inl (ValueError_float s) | Some f \<Rightarrow> Inr f)"
| "py_float rt v = Inl (TypeError_float (type_name v))"

section \<open>The external trading client\<close>

text \<open>
  The class \<open>Polymarket\<close> is an external collaborator. Its behaviour is a parameter: the
  constructor and the method calls act on the state \<open>'w\<close> of everything outside the
  bridge, and each either returns a value or raises an exception, given by its \<open>str()\<close>.
\<close>

datatype capability =
    Get_balance
  | Get_address_for_private_key
  | Get_orders
  | Get_positions
  | Place_market_order string string pyfloat
  | Place_limit_order string string pyfloat pyfloat
  | Cancel_order string
  | Get_order_book string

record ('c, 'w) polymarket =
  Polymarket :: "'w \<Rightarrow> (string + 'c) \<times> 'w"
  invoke :: "'c \<Rightarrow> capability \<Rightarrow> 'w \<Rightarrow> (string + pyval) \<times> 'w"

section \<open>The bridge\<close>

text \<open>
  The module's one global, \<open>polymarket_client\<close>, together with the outside world the
  client acts on.
\<close>

record ('c, 'w) bridge =
  polymarket_client :: "'c option"
  world :: 'w

type_synonym ('a, 's) action = "'s \<Rightarrow> (pyexn + 'a) \<times> 's"

definition returns :: "'a \<Rightarrow> ('a, 's) action" where
  "returns x = (\<lambda>s. (Inr x, s))"

definition raise :: "pyexn \<Rightarrow> ('a, 's) action" where
  "raise e = (\<lambda>s. (Inl e, s))"

definition evaluate :: "pyexn + 'a \<Rightarrow> ('a, 's) action" where
  "evaluate r = (\<lambda>s. (r, s))"

definition andThen :: "('a, 's) action \<Rightarrow> ('a \<Rightarrow> ('b, 's) action) \<Rightarrow> ('b, 's) action" where
  "andThen m f = (\<lambda>s. case m s of (Inl e, s') \<Rightarrow> (Inl e, s') | (Inr x, s') \<Rightarrow> f x s')"

definition try_except :: "('a, 's) action \<Rightarrow> (pyexn \<Rightarrow> ('a, 's) action) \<Rightarrow> ('a, 's) action" where
  "try_except m h = (\<lambda>s. case m s of (Inl e, s') \<Rightarrow> h e s' | (Inr x, s') \<Rightarrow> (Inr x, s'))"

text \<open>
  \<^verbatim>\<open>
  def get_client():
      global polymarket_client
      if polymarket_client is None:
          polymarket_client = Polymarket()
      return polymarket_client
  \<close>
\<close>

definition get_client :: "('c, 'w) polymarket \<Rightarrow> ('c, ('c, 'w) bridge) action" where
  "get_client api s =
     (case polymarket_client s of
        None \<Rightarrow>
          (case Polymarket api (world s) of
             (Inl m, w) \<Rightarrow> (Inl (ClientError m), s\<lparr>world := w\<rparr>)
           | (Inr c, w) \<Rightarrow> (Inr c, s\<lparr>polymarket_client := Some c, world := w\<rparr>))
      | Some c \<Rightarrow> (Inr c, s))"

text \<open>A method call \<open>client.m(args)\<close>.\<close>

definition call :: "('c, 'w) polymarket \<Rightarrow> 'c \<Rightarrow> capability \<Rightarrow> (pyval, ('c, 'w) bridge) action" where
  "call api c cap s =
     (case invoke api c cap (world s) of
        (Inl m, w) \<Rightarrow> (Inl (ClientError m), s\<lparr>world := w\<rparr>)
      | (Inr v, w) \<Rightarrow> (Inr v, s\<lparr>world := w\<rparr>))"

text \<open>
  The clause every handler but \<open>health_check\<close> ends with:
  \<^verbatim>\<open>except Exception as e: raise HTTPException(status_code=500, detail=str(e))\<close>
\<close>

definition except_Exception :: "runtime \<Rightarrow> pyexn \<Rightarrow> ('a, 's) action" where
  "except_Exception rt e = raise (HTTPException 500 (py_str rt e))"

record OrderRequest =
  token_id :: string
  side :: string
  amount :: pyfloat
  price :: "pyfloat option"

definition health_check :: "(pyval, 's) action" where
  "health_check = returns (PDict [(''status'', PStr ''ok''), (''service'', PStr ''polymarket-clob-bridge'')])"

definition get_balance :: "runtime \<Rightarrow> ('c, 'w) polymarket \<Rightarrow> (pyval, ('c, 'w) bridge) action" where
  "get_balance rt api =
     try_except
       (andThen (get_client api) (\<lambda>client.
        andThen (call api client Get_balance) (\<lambda>balance.
        andThen (call api client Get_address_for_private_key) (\<lambda>address.
        returns (PDict [(''usdc_balance'', balance), (''address'', address)])))))
       (except_Exception rt)"

text \<open>
  The dict built for one order in the loop of \<open>get_open_orders\<close>, its values evaluated in
  the order the literal lists them:
  \<^verbatim>\<open>
  order_list.append({
      "id": order.get("id"),
      "market_id": order.get("market"),
      "token_id": order.get("asset_id"),
      "side": order.get("side"),
      "price": float(order.get("price", 0)),
      "size": float(order.get("size", 0)),
      "status": order.get("status"),
      "timestamp": order.get("created_at")
  })
  \<close>
\<close>

definition order_entry :: "runtime \<Rightarrow> pyval \<Rightarrow> pyexn + pyval" where
  "order_entry rt order =
     bindE (py_get order ''id'' PNone) (\<lambda>v_id.
     bindE (py_get order ''market'' PNone) (\<lambda>v_market.
     bindE (py_get order ''asset_id'' PNone) (\<lambda>v_token.
     bindE (py_get order ''side'' PNone) (\<lambda>v_side.
     bindE (bindE (py_get order ''price'' (PInt 0)) (py_float rt)) (\<lambda>v_price.
     bindE (bindE (py_get order ''size'' (PInt 0)) (py_float rt)) (\<lambda>v_size.
     bindE (py_get order ''status'' PNone) (\<lambda>v_status.
     bindE (py_get order ''created_at'' PNone) (\<lambda>v_timestamp.
     Inr (PDict
       [(''id'', v_id), (''market_id'', v_market), (''token_id'', v_token),
        (''side'', v_side), (''price'', PFloat v_price), (''size'', PFloat v_size),
        (''status'', v_status), (''timestamp'', v_timestamp)])))))))))"

text \<open>The dict built for one position in the loop of \<open>get_positions\<close>.\<close>

definition position_entry :: "runtime \<Rightarrow> pyval \<Rightarrow> pyexn + pyval" where
  "position_entry rt pos =
     bindE (py_get pos ''asset_id'' PNone) (\<lambda>v_token.
     bindE (py_get pos ''market'' PNone) (\<lambda>v_market.
     bindE (py_get pos ''side'' PNone) (\<lambda>v_side.
     bindE (bindE (py_get pos ''size'' (PInt 0)) (py_float rt)) (\<lambda>v_size.
     bindE (bindE (py_get pos ''value'' (PInt 0)) (py_float rt)) (\<lambda>v_value.
     bindE (bindE (py_get pos ''entry_price'' (PInt 0)) (py_float rt)) (\<lambda>v_entry.
     bindE (bindE (py_get pos ''current_price'' (PInt 0)) (py_float rt)) (\<lambda>v_current.
     bindE (bindE (py_get pos ''pnl'' (PInt 0)) (py_float rt)) (\<lambda>v_pnl.
     Inr (PDict
       [(''token_id'', v_token), (''market'', v_market), (''side'', v_side),
        (''size'', PFloat v_size), (''value'', PFloat v_value),
        (''entry_price'', PFloat v_entry), (''current_price'', PFloat v_current),
        (''pnl'', PFloat v_pnl)])))))))))"

text \<open>
  The loop \<^verbatim>\<open>for x in xs: acc.append(entry(x))\<close> of both listing handlers: the
  accumulator is the list built so far, and the first failing entry ends the loop.
\<close>

fun append_entries :: "(pyval \<Rightarrow> pyexn + pyval) \<Rightarrow> pyval list \<Rightarrow> pyval list \<Rightarrow> pyexn + pyval list" where
  "append_entries entry [] acc = Inr acc"
| "append_entries entry (x # xs) acc =
     (case entry x of Inl e \<Rightarrow> Inl e | Inr d \<Rightarrow> append_entries entry xs (acc @ [d]))"

definition get_open_orders :: "runtime \<Rightarrow> ('c, 'w) polymarket \<Rightarrow> (pyval, ('c, 'w) bridge) action" where
  "get_open_orders rt api =
     try_except
       (andThen (get_client api) (\<lambda>client.
        andThen (call api client Get_orders) (\<lambda>orders.
        andThen (evaluate (bindE (py_iter orders) (\<lambda>xs. append_entries (order_entry rt) xs []))) (\<lambda>order_list.
        returns (PDict [(''orders'', PList order_list), (''total'', PInt (int (length order_list)))])))))
       (except_Exception rt)"

definition get_positions :: "runtime \<Rightarrow> ('c, 'w) polymarket \<Rightarrow> (pyval, ('c, 'w) bridge) action" where
  "get_positions rt api =
     try_except
       (andThen (get_client api) (\<lambda>client.
        andThen (call api client Get_positions) (\<lambda>positions.
        andThen (evaluate (bindE (py_iter positions) (\<lambda>xs. append_entries (position_entry rt) xs []))) (\<lambda>position_list.
        returns (PDict [(''positions'', PList position_list), (''total'', PInt (int (length position_list)))])))))
       (except_Exception rt)"

definition place_market_order ::
  "runtime \<Rightarrow> ('c, 'w) polymarket \<Rightarrow> OrderRequest \<Rightarrow> (pyval, ('c, 'w) bridge) action" where
  "place_market_order rt api order_request =
     try_except
       (andThen (get_client api) (\<lambda>client.
        andThen (call api client
                   (Place_market_order (token_id order_request) (side order_request) (amount order_request))) (\<lambda>result.
        andThen (evaluate (py_get result ''id'' PNone)) (\<lambda>v_id.
        andThen (evaluate (py_get result ''status'' PNone)) (\<lambda>v_status.
        andThen (evaluate (py_get result ''filled_amount'' PNone)) (\<lambda>v_filled.
        returns (PDict [(''success'', PBool True), (''order_id'', v_id), (''status'', v_status),
                        (''filled_amount'', v_filled)])))))))
       (except_Exception rt)"

text \<open>
  The check of the price is the first statement of the \<open>try\<close> block, so what it raises
  passes through the handler's own \<open>except\<close> clause:
  \<^verbatim>\<open>
  try:
      if order_request.price is None:
          raise HTTPException(status_code=400, detail="Price is required for limit orders")
      client = get_client()
      result = client.place_limit_order(
          token_id=order_request.token_id, side=order_request.side,
          amount=order_request.amount, price=order_request.price)
      return {"success": True, "order_id": result.get("id"), "status": result.get("status")}
  except Exception as e:
      raise HTTPException(status_code=500, detail=str(e))
  \<close>
\<close>

definition place_limit_order ::
  "runtime \<Rightarrow> ('c, 'w) polymarket \<Rightarrow> OrderRequest \<Rightarrow> (pyval, ('c, 'w) bridge) action" where
  "place_limit_order rt api order_request =
     try_except
       (andThen (case price order_request of
                   None \<Rightarrow> raise (HTTPException 400 ''Price is required for limit orders'')
                 | Some p \<Rightarrow> returns p) (\<lambda>p.
        andThen (get_client api) (\<lambda>client.
        andThen (call api client
                   (Place_limit_order (token_id order_request) (side order_request) (amount order_request) p)) (\<lambda>result.
        andThen (evaluate (py_get result ''id'' PNone)) (\<lambda>v_id.
        andThen (evaluate (py_get result ''status'' PNone)) (\<lambda>v_status.
        returns (PDict [(''success'', PBool True), (''order_id'', v_id), (''status'', v_status)])))))))
       (except_Exception rt)"

text \<open>
  \<open>cancel_order\<close> binds the value the client returns to \<open>result\<close> and never reads it:
  \<^verbatim>\<open>
  result = client.cancel_order(order_id)
  return {"success": True, "order_id": order_id, "status": "cancelled"}
  \<close>
\<close>

definition cancel_order :: "runtime \<Rightarrow> ('c, 'w) polymarket \<Rightarrow> string \<Rightarrow> (pyval, ('c, 'w) bridge) action" where
  "cancel_order rt api order_id =
     try_except
       (andThen (get_client api) (\<lambda>client.
        andThen (call api client (Cancel_order order_id)) (\<lambda>result.
        returns (PDict [(''success'', PBool True), (''order_id'', PStr order_id),
                        (''status'', PStr ''cancelled'')]))))
       (except_Exception rt)"

definition get_orderbook :: "runtime \<Rightarrow> ('c, 'w) polymarket \<Rightarrow> string \<Rightarrow> (pyval, ('c, 'w) bridge) action" where
  "get_orderbook rt api tid =
     try_except
       (andThen (get_client api) (\<lambda>client.
        andThen (call api client (Get_order_book tid)) (\<lambda>orderbook.
        andThen (evaluate (py_get orderbook ''bids'' (PList []))) (\<lambda>v_bids.
        andThen (evaluate (py_get orderbook ''asks'' (PList []))) (\<lambda>v_asks.
        andThen (evaluate (py_get orderbook ''spread'' (PInt 0))) (\<lambda>v_spread.
        returns (PDict [(''token_id'', PStr tid), (''bids'', v_bids), (''asks'', v_asks),
                        (''spread'', v_spread)])))))))
       (except_Exception rt)"

section \<open>Routing and responses\<close>

text \<open>The eight routes the decorators bind, with the arguments FastAPI hands the handler.\<close>

datatype request =
    GET_health
  | GET_balance
  | GET_orders
  | GET_positions
  | POST_order_market OrderRequest
  | POST_order_limit OrderRequest
  | DELETE_order string
  | GET_orderbook string

fun dispatch :: "runtime \<Rightarrow> ('c, 'w) polymarket \<Rightarrow> request \<Rightarrow> (pyval, ('c, 'w) bridge) action" where
  "dispatch rt api GET_health = health_check"
| "dispatch rt api GET_balance = get_balance rt api"
| "dispatch rt api GET_orders = get_open_orders rt api"
| "dispatch rt api GET_positions = get_positions rt api"
| "dispatch rt api (POST_order_market r) = place_market_order rt api r"
| "dispatch rt api (POST_order_limit r) = place_limit_order rt api r"
| "dispatch rt api (DELETE_order i) = cancel_order rt api i"
| "dispatch rt api (GET_orderbook t) = get_orderbook rt api t"

text \<open>
  \<^verbatim>\<open>@app.get("/balance", response_model=BalanceResponse)\<close>: the body \<open>get_balance\<close>
  returns is coerced to the model before it is sent; no other route declares a model.
\<close>

fun response_model :: "runtime \<Rightarrow> request \<Rightarrow> pyexn + pyval \<Rightarrow> pyexn + pyval" where
  "response_model rt GET_balance (Inr body) =
     (case BalanceResponse rt body of None \<Rightarrow> Inl ResponseValidationError | Some b \<Rightarrow> Inr b)"
| "response_model rt req r = r"

type_synonym response = "nat \<times> pyval"

text \<open>
  Modelled from the spec: the web framework's translation of a handler's outcome into an
  HTTP response is not part of the source. Sections 6 and 7 of the specification give it:
  status 200 with the returned body on success, and for a raised \<open>HTTPException\<close> its
  status code with the body \<open>{detail: message}\<close>. An exception of any other kind leaving a
  handler is the framework's plain 500 response.
\<close>

fun respond :: "pyexn + pyval \<Rightarrow> response" where
  "respond (Inr body) = (200, body)"
| "respond (Inl (HTTPException status_code detail)) = (status_code, PDict [(''detail'', PStr detail)])"
| "respond (Inl e) = (500, PStr ''Internal Server Error'')"

definition serve ::
  "runtime \<Rightarrow> ('c, 'w) polymarket \<Rightarrow> request \<Rightarrow> ('c, 'w) bridge \<Rightarrow> response \<times> ('c, 'w) bridge" where
  "serve rt api req s =
     (case dispatch rt api req s of (r, s') \<Rightarrow> (respond (response_model rt req r), s'))"

text \<open>Requests handled one after the other, as a sequential execution of the process.\<close>

fun serve_all ::
  "runtime \<Rightarrow> ('c, 'w) polymarket \<Rightarrow> request list \<Rightarrow> ('c, 'w) bridge \<Rightarrow> response list \<times> ('c, 'w) bridge" where
  "serve_all rt api [] s = ([], s)"
| "serve_all rt api (req # reqs) s =
     (case serve rt api req s of
        (resp, s') \<Rightarrow> (case serve_all rt api reqs s' of (resps, s'') \<Rightarrow> (resp # resps, s'')))"

section \<open>Observing the calls into the client\<close>

text \<open>
  A client wrapped by \<open>spy\<close> behaves as the client it wraps and records, in the outside
  world, every construction and every method call together with the text of the exception
  it raised, if it raised one.
\<close>

datatype client_call = Construct | Method capability

type_synonym event = "client_call \<times> string option"

definition outcome :: "string + 'a \<Rightarrow> string option" where
  "outcome r = (case r of Inl m \<Rightarrow> Some m | Inr _ \<Rightarrow> None)"

definition spy :: "('c, 'w) polymarket \<Rightarrow> ('c, 'w \<times> event list) polymarket" where
  "spy api =
     \<lparr>Polymarket = (\<lambda>(w, evs). case Polymarket api w of (r, w') \<Rightarrow> (r, (w', evs @ [(Construct, outcome r)]))),
      invoke = (\<lambda>c cap (w, evs). case invoke api c cap w of (r, w') \<Rightarrow> (r, (w', evs @ [(Method cap, outcome r)])))\<rparr>"

definition events :: "('c, 'w \<times> event list) bridge \<Rightarrow> event list" where
  "events s = snd (world s)"

fun is_method :: "event \<Rightarrow> bool" where
  "is_method (Method cap, r) = True"
| "is_method (Construct, r) = False"

definition method_calls :: "('c, 'w \<times> event list) bridge \<Rightarrow> nat" where
  "method_calls s = length (filter is_method (events s))"

definition constructions :: "('c, 'w \<times> event list) bridge \<Rightarrow> nat" where
  "constructions s = length (filter (\<lambda>ev. ev = (Construct, None)) (events s))"

text \<open>
  The client calls the specification's table of operations lists for each route, with the
  arguments it names; a limit order that carries no price reaches no call.
\<close>

fun spec_client_calls :: "request \<Rightarrow> capability list" where
  "spec_client_calls GET_health = []"
| "spec_client_calls GET_balance = [Get_balance, Get_address_for_private_key]"
| "spec_client_calls GET_orders = [Get_orders]"
| "spec_client_calls GET_positions = [Get_positions]"
| "spec_client_calls (POST_order_market r) = [Place_market_order (token_id r) (side r) (amount r)]"
| "spec_client_calls (POST_order_limit r) =
     (case price r of None \<Rightarrow> [] | Some p \<Rightarrow> [Place_limit_order (token_id r) (side r) (amount r) p])"
| "spec_client_calls (DELETE_order i) = [Cancel_order i]"
| "spec_client_calls (GET_orderbook t) = [Get_order_book t]"

text \<open>The requests whose handling reaches \<open>get_client\<close>.\<close>

fun uses_client :: "request \<Rightarrow> bool" where
  "uses_client GET_health = False"
| "uses_client (POST_order_limit r) = (price r \<noteq> None)"
| "uses_client req = True"

text \<open>
  The records a listing can turn into entries: dicts in which each of the numeric keys \<open>ks\<close>
  is either missing or bound to a value \<open>float()\<close> accepts.
\<close>

definition accepted :: "runtime \<Rightarrow> string list \<Rightarrow> pyval \<Rightarrow> bool" where
  "accepted rt ks x =
     (case x of
        PDict kvs \<Rightarrow>
          list_all (\<lambda>k. case map_of kvs k of None \<Rightarrow> True | Some v \<Rightarrow> \<not> isl (py_float rt v)) ks
      | _ \<Rightarrow> False)"

section \<open>The normalization the specification describes\<close>

text \<open>
  The specification's data model (section 3) and table of operations (section 4.3) give the
  shape of each success body. They are written here a second time, as plain functions of
  the values the calls returned, to be compared with the handlers. The specification names
  the normalized keys only; the raw keys are those the source reads. A column of a view is
  the normalized key, the raw key and whether the field is numeric: a numeric field is
  \<open>float()\<close> of the raw value, or of 0 when the raw key is missing, any other field is the
  raw value, or null when the raw key is missing.
\<close>

definition raw_field :: "(string \<times> pyval) list \<Rightarrow> string \<Rightarrow> pyval \<Rightarrow> pyval" where
  "raw_field kvs k d = (case map_of kvs k of None \<Rightarrow> d | Some v \<Rightarrow> v)"

text \<open>The results of a sequence of evaluations: all of them in order, or the first exception.\<close>

fun first_error :: "(pyexn + 'a) list \<Rightarrow> pyexn + 'a list" where
  "first_error [] = Inr []"
| "first_error (r # rs) =
     (case r of
        Inl e \<Rightarrow> Inl e
      | Inr x \<Rightarrow> (case first_error rs of Inl e \<Rightarrow> Inl e | Inr xs \<Rightarrow> Inr (x # xs)))"

type_synonym view = "(string \<times> string \<times> bool) list"

definition order_view :: view where
  "order_view =
     [(''id'', ''id'', False), (''market_id'', ''market'', False), (''token_id'', ''asset_id'', False),
      (''side'', ''side'', False), (''price'', ''price'', True), (''size'', ''size'', True),
      (''status'', ''status'', False), (''timestamp'', ''created_at'', False)]"

definition position_view :: view where
  "position_view =
     [(''token_id'', ''asset_id'', False), (''market'', ''market'', False), (''side'', ''side'', False),
      (''size'', ''size'', True), (''value'', ''value'', True), (''entry_price'', ''entry_price'', True),
      (''current_price'', ''current_price'', True), (''pnl'', ''pnl'', True)]"

definition spec_field :: "runtime \<Rightarrow> (string \<times> pyval) list \<Rightarrow> string \<times> string \<times> bool \<Rightarrow> pyexn + (string \<times> pyval)" where
  "spec_field rt kvs col =
     (case col of (out, raw, numeric) \<Rightarrow>
        if numeric
        then (case py_float rt (raw_field kvs raw (PInt 0)) of Inl e \<Rightarrow> Inl e | Inr f \<Rightarrow> Inr (out, PFloat f))
        else Inr (out, raw_field kvs raw PNone))"

definition spec_entry :: "runtime \<Rightarrow> view \<Rightarrow> pyval \<Rightarrow> pyexn + pyval" where
  "spec_entry rt cols x =
     (case x of
        PDict kvs \<Rightarrow>
          (case first_error (map (spec_field rt kvs) cols) of Inl e \<Rightarrow> Inl e | Inr fs \<Rightarrow> Inr (PDict fs))
      | _ \<Rightarrow> Inl (AttributeError (type_name x) ''get''))"

definition spec_listing :: "runtime \<Rightarrow> view \<Rightarrow> string \<Rightarrow> pyval \<Rightarrow> pyexn + pyval" where
  "spec_listing rt cols name v =
     (case py_iter v of
        Inl e \<Rightarrow> Inl e
      | Inr xs \<Rightarrow>
          (case first_error (map (spec_entry rt cols) xs) of
             Inl e \<Rightarrow> Inl e
           | Inr ys \<Rightarrow> Inr (PDict [(name, PList ys), (''total'', PInt (int (length xs)))])))"

definition spec_record :: "pyval \<Rightarrow> ((string \<times> pyval) list \<Rightarrow> pyval) \<Rightarrow> pyexn + pyval" where
  "spec_record v shape =
     (case v of PDict kvs \<Rightarrow> Inr (shape kvs) | _ \<Rightarrow> Inl (AttributeError (type_name v) ''get''))"

text \<open>
  The body of each route from the values of its calls. The last equation is never reached
  with the values of the calls listed for the route.
\<close>

fun spec_response :: "runtime \<Rightarrow> request \<Rightarrow> pyval list \<Rightarrow> pyexn + pyval" where
  "spec_response rt GET_health [] =
     Inr (PDict [(''status'', PStr ''ok''), (''service'', PStr ''polymarket-clob-bridge'')])"
| "spec_response rt GET_balance [balance, address] =
     Inr (PDict [(''usdc_balance'', balance), (''address'', address)])"
| "spec_response rt GET_orders [orders] = spec_listing rt order_view ''orders'' orders"
| "spec_response rt GET_positions [positions] = spec_listing rt position_view ''positions'' positions"
| "spec_response rt (POST_order_market r) [result] =
     spec_record result (\<lambda>kvs.
       PDict [(''success'', PBool True), (''order_id'', raw_field kvs ''id'' PNone),
              (''status'', raw_field kvs ''status'' PNone),
              (''filled_amount'', raw_field kvs ''filled_amount'' PNone)])"
| "spec_response rt (POST_order_limit r) [result] =
     spec_record result (\<lambda>kvs.
       PDict [(''success'', PBool True), (''order_id'', raw_field kvs ''id'' PNone),
              (''status'', raw_field kvs ''status'' PNone)])"
| "spec_response rt (DELETE_order i) [result] =
     Inr (PDict [(''success'', PBool True), (''order_id'', PStr i), (''status'', PStr ''cancelled'')])"
| "spec_response rt (GET_orderbook t) [orderbook] =
     spec_record orderbook (\<lambda>kvs.
       PDict [(''token_id'', PStr t), (''bids'', raw_field kvs ''bids'' (PList [])),
              (''asks'', raw_field kvs ''asks'' (PList [])), (''spread'', raw_field kvs ''spread'' (PInt 0))])"
| "spec_response rt req vs = Inr PNone"

text \<open>The listed calls made one after the other, up to the first that raises.\<close>

fun invoke_all :: "('c, 'w) polymarket \<Rightarrow> 'c \<Rightarrow> capability list \<Rightarrow> 'w \<Rightarrow> (string + pyval list) \<times> 'w" where
  "invoke_all api c [] w = (Inr [], w)"
| "invoke_all api c (cap # caps) w =
     (case invoke api c cap w of
        (Inl m, w') \<Rightarrow> (Inl m, w')
      | (Inr v, w') \<Rightarrow>
          (case invoke_all api c caps w' of
             (Inl m, w'') \<Rightarrow> (Inl m, w'')
           | (Inr vs, w'') \<Rightarrow> (Inr (v # vs), w'')))"

section \<open>Test doubles\<close>

text \<open>
  A scripted client, as a test would stub it: the outside world is the list of outcomes
  still to come, the constructor and every method call take the next one (a raised text
  or a returned value), and an exhausted script raises.
\<close>

definition scripted :: "(unit, (string + pyval) list) polymarket" where
  "scripted =
     \<lparr>Polymarket = (\<lambda>w. case w of [] \<Rightarrow> (Inl ''script exhausted'', [])
                          | r # rest \<Rightarrow> ((case r of Inl m \<Rightarrow> Inl m | Inr _ \<Rightarrow> Inr ()), rest)),
      invoke = (\<lambda>c cap w. case w of [] \<Rightarrow> (Inl ''script exhausted'', []) | r # rest \<Rightarrow> (r, rest))\<rparr>"

definition fresh :: "'w \<Rightarrow> ('c, 'w) bridge" where
  "fresh w = \<lparr>polymarket_client = None, world = w\<rparr>"

text \<open>
  A runtime to evaluate examples with. The texts are those of CPython 3.12 and of Starlette
  0.37 (\<open>str()\<close> of an \<open>HTTPException\<close> is its status code, a colon and its detail). The
  parser is a table of three literals; the only other string the examples give it is
  \<open>abc\<close>, which \<open>float()\<close> rejects as well.
\<close>

fun decimal :: "nat \<Rightarrow> string" where
  "decimal n = (if n < 10 then [''0123456789'' ! n] else decimal (n div 10) @ [''0123456789'' ! (n mod 10)])"

declare decimal.simps [simp del]

definition quoted :: "string \<Rightarrow> string" where
  "quoted s = [CHR 0x27] @ s @ [CHR 0x27]"

fun sample_exception_str :: "pyexn \<Rightarrow> string" where
  "sample_exception_str (ClientError m) = m"
| "sample_exception_str (HTTPException status_code detail) = decimal status_code @ '': '' @ detail"
| "sample_exception_str (AttributeError t a) = quoted t @ '' object has no attribute '' @ quoted a"
| "sample_exception_str (TypeError_not_iterable t) = quoted t @ '' object is not iterable''"
| "sample_exception_str (TypeError_float t) = ''float() argument must be a string or a real number, not '' @ quoted t"
| "sample_exception_str (ValueError_float s) = ''could not convert string to float: '' @ quoted s"
| "sample_exception_str OverflowError = ''int too large to convert to float''"
| "sample_exception_str ResponseValidationError = ''response validation error''"

definition sample_BalanceResponse :: "pyval \<Rightarrow> pyval option" where
  "sample_BalanceResponse body =
     (case body of
        PDict kvs \<Rightarrow>
          (case (map_of kvs ''usdc_balance'', map_of kvs ''address'') of
             (Some (PFloat f), Some (PStr a)) \<Rightarrow>
               Some (PDict [(''usdc_balance'', PFloat f), (''address'', PStr a)])
           | _ \<Rightarrow> None)
      | _ \<Rightarrow> None)"

definition sample_runtime :: runtime where
  "sample_runtime =
     \<lparr>float_of_str = map_of [(''0'', Finite 0), (''10'', Finite 10), (''0.5'', Finite (1 / 2))],
      exception_str = sample_exception_str,
      BalanceResponse = sample_BalanceResponse\<rparr>"

section \<open>Trace specifications\<close>

text \<open>
  What the proofs below establish of an action run against a spied client: the events it
  adds, that an event which raised decides the result, that a normal return has made
  exactly the calls \<open>caps\<close>, that a successful construction is recorded exactly when the
  handle goes from unset to set, and that a set handle is kept.
\<close>

definition new_constructions :: "event list \<Rightarrow> nat" where
  "new_constructions evs = length (filter (\<lambda>ev. ev = (Construct, None)) evs)"

definition held :: "('c, 'w) bridge \<Rightarrow> nat" where
  "held s = (if polymarket_client s = None then 0 else 1)"

definition traced ::
  "(string \<Rightarrow> pyexn) \<Rightarrow> capability list \<Rightarrow> ('a, ('c, 'w \<times> event list) bridge) action \<Rightarrow> bool" where
  "traced wrap caps m =
     (\<forall>s. case m s of (r, s') \<Rightarrow>
        (\<exists>new. events s' = events s @ new \<and>
           (\<forall>cl msg. (cl, Some msg) \<in> set new \<longrightarrow> r = Inl (wrap msg)) \<and>
           (\<not> isl r \<longrightarrow> filter is_method new = map (\<lambda>cap. (Method cap, None)) caps) \<and>
           held s + new_constructions new = held s' \<and>
           (\<forall>c. polymarket_client s = Some c \<longrightarrow> polymarket_client s' = Some c)))"

section \<open>Properties\<close>

lemmas action_defs = returns_def raise_def evaluate_def andThen_def try_except_def except_Exception_def

lemmas handler_defs = health_check_def get_balance_def get_open_orders_def get_positions_def
  place_market_order_def place_limit_order_def cancel_order_def get_orderbook_def

lemma float_of_int_0: "float_of_int 0 = Inr (Finite 0)"
  by (simp add: float_of_int_def)

lemmas run_defs = serve_def handler_defs action_defs get_client_def call_def bindE_def py_str_def
  order_entry_def position_entry_def float_of_int_0

lemmas double_defs = scripted_def spy_def fresh_def sample_runtime_def sample_BalanceResponse_def
  events_def outcome_def method_calls_def constructions_def quoted_def

subsection \<open>Traces of the handlers\<close>

text \<open>
  Each primitive action meets its trace specification, sequencing adds the calls up, and the
  closing \<open>except\<close> clause turns the client's exception into the 500 response. So every
  handler makes, on a normal return, exactly the calls the specification's table lists.
\<close>

lemma traced_returns: "traced wrap [] (returns x)"
  by (simp add: traced_def returns_def new_constructions_def)

lemma traced_raise: "traced wrap [] (raise e)"
  by (simp add: traced_def raise_def new_constructions_def)

lemma traced_evaluate: "traced wrap [] (evaluate r)"
  by (simp add: traced_def evaluate_def new_constructions_def)

lemma traced_get_client: "traced ClientError [] (get_client (spy api))"
  unfolding traced_def
proof
  fix s :: "('a, 'b \<times> event list) bridge"
  obtain w evs where w: "world s = (w, evs)" by (cases "world s")
  obtain r w' where r: "Polymarket api w = (r, w')" by (cases "Polymarket api w")
  show "case get_client (spy api) s of (r, s') \<Rightarrow>
        (\<exists>new. events s' = events s @ new \<and>
           (\<forall>cl msg. (cl, Some msg) \<in> set new \<longrightarrow> r = Inl (ClientError msg)) \<and>
           (\<not> isl r \<longrightarrow> filter is_method new = map (\<lambda>cap. (Method cap, None)) []) \<and>
           held s + new_constructions new = held s' \<and>
           (\<forall>c. polymarket_client s = Some c \<longrightarrow> polymarket_client s' = Some c))"
  proof (cases "polymarket_client s")
    case (Some c)
    then show ?thesis by (simp add: get_client_def new_constructions_def)
  next
    case None
    then show ?thesis using w r
      by (cases r) (simp_all add: get_client_def spy_def events_def outcome_def held_def new_constructions_def)
  qed
qed

lemma traced_call: "traced ClientError [cap] (call (spy api) c cap)"
  unfolding traced_def
proof
  fix s :: "('a, 'b \<times> event list) bridge"
  obtain w evs where w: "world s = (w, evs)" by (cases "world s")
  obtain r w' where r: "invoke api c cap w = (r, w')" by (cases "invoke api c cap w")
  show "case call (spy api) c cap s of (r, s') \<Rightarrow>
        (\<exists>new. events s' = events s @ new \<and>
           (\<forall>cl msg. (cl, Some msg) \<in> set new \<longrightarrow> r = Inl (ClientError msg)) \<and>
           (\<not> isl r \<longrightarrow> filter is_method new = map (\<lambda>cap. (Method cap, None)) [cap]) \<and>
           held s + new_constructions new = held s' \<and>
           (\<forall>c. polymarket_client s = Some c \<longrightarrow> polymarket_client s' = Some c))"
    using w r
    by (cases r) (simp_all add: call_def spy_def events_def outcome_def held_def new_constructions_def)
qed

lemma traced_andThen:
  assumes m: "traced wrap caps1 m" and f: "\<And>x. traced wrap caps2 (f x)"
  shows "traced wrap (caps1 @ caps2) (andThen m f)"
  unfolding traced_def
proof
  fix s
  obtain r1 s1 where m1: "m s = (r1, s1)" by (cases "m s")
  from m m1 obtain new1 where n1: "events s1 = events s @ new1"
    and e1: "\<forall>cl msg. (cl, Some msg) \<in> set new1 \<longrightarrow> r1 = Inl (wrap msg)"
    and c1: "\<not> isl r1 \<longrightarrow> filter is_method new1 = map (\<lambda>cap. (Method cap, None)) caps1"
    and h1: "held s + new_constructions new1 = held s1"
    and p1: "\<forall>c. polymarket_client s = Some c \<longrightarrow> polymarket_client s1 = Some c"
    unfolding traced_def by (auto dest!: spec [of _ s])
  show "case andThen m f s of (r, s') \<Rightarrow>
        (\<exists>new. events s' = events s @ new \<and>
           (\<forall>cl msg. (cl, Some msg) \<in> set new \<longrightarrow> r = Inl (wrap msg)) \<and>
           (\<not> isl r \<longrightarrow> filter is_method new = map (\<lambda>cap. (Method cap, None)) (caps1 @ caps2)) \<and>
           held s + new_constructions new = held s' \<and>
           (\<forall>c. polymarket_client s = Some c \<longrightarrow> polymarket_client s' = Some c))"
  proof (cases r1)
    case (Inl e)
    with m1 n1 e1 h1 p1 show ?thesis by (auto simp: andThen_def)
  next
    case (Inr x)
    obtain r2 s2 where m2: "f x s1 = (r2, s2)" by (cases "f x s1")
    from f [of x] m2 obtain new2 where n2: "events s2 = events s1 @ new2"
      and e2: "\<forall>cl msg. (cl, Some msg) \<in> set new2 \<longrightarrow> r2 = Inl (wrap msg)"
      and c2: "\<not> isl r2 \<longrightarrow> filter is_method new2 = map (\<lambda>cap. (Method cap, None)) caps2"
      and h2: "held s1 + new_constructions new2 = held s2"
      and p2: "\<forall>c. polymarket_client s1 = Some c \<longrightarrow> polymarket_client s2 = Some c"
      unfolding traced_def by (auto dest!: spec [of _ s1])
    from Inr e1 have none1: "\<And>cl msg. (cl, Some msg) \<notin> set new1" by auto
    have "events s2 = events s @ (new1 @ new2)" using n1 n2 by simp
    moreover have "\<forall>cl msg. (cl, Some msg) \<in> set (new1 @ new2) \<longrightarrow> r2 = Inl (wrap msg)"
      using none1 e2 by auto
    moreover have "\<not> isl r2 \<longrightarrow> filter is_method (new1 @ new2) = map (\<lambda>cap. (Method cap, None)) (caps1 @ caps2)"
      using c1 c2 Inr by simp
    moreover have "held s + new_constructions (new1 @ new2) = held s2"
      using h1 h2 by (simp add: new_constructions_def)
    moreover have "\<forall>c. polymarket_client s = Some c \<longrightarrow> polymarket_client s2 = Some c"
      using p1 p2 by simp
    ultimately show ?thesis using m1 m2 Inr by (auto simp: andThen_def)
  qed
qed

lemma traced_seq:
  assumes "traced wrap caps1 m" and "\<And>x. traced wrap caps2 (f x)" and "caps = caps1 @ caps2"
  shows "traced wrap caps (andThen m f)"
  using traced_andThen [OF assms(1,2)] assms(3) by simp

lemma traced_try_except:
  assumes "traced ClientError caps m"
  shows "traced (HTTPException 500) caps (try_except m (except_Exception rt))"
  unfolding traced_def
proof
  fix s
  obtain r1 s1 where m1: "m s = (r1, s1)" by (cases "m s")
  from assms m1 obtain new1 where n1: "events s1 = events s @ new1"
    and e1: "\<forall>cl msg. (cl, Some msg) \<in> set new1 \<longrightarrow> r1 = Inl (ClientError msg)"
    and c1: "\<not> isl r1 \<longrightarrow> filter is_method new1 = map (\<lambda>cap. (Method cap, None)) caps"
    and h1: "held s + new_constructions new1 = held s1"
    and p1: "\<forall>c. polymarket_client s = Some c \<longrightarrow> polymarket_client s1 = Some c"
    unfolding traced_def by (auto dest!: spec [of _ s])
  show "case try_except m (except_Exception rt) s of (r, s') \<Rightarrow>
        (\<exists>new. events s' = events s @ new \<and>
           (\<forall>cl msg. (cl, Some msg) \<in> set new \<longrightarrow> r = Inl (HTTPException 500 msg)) \<and>
           (\<not> isl r \<longrightarrow> filter is_method new = map (\<lambda>cap. (Method cap, None)) caps) \<and>
           held s + new_constructions new = held s' \<and>
           (\<forall>c. polymarket_client s = Some c \<longrightarrow> polymarket_client s' = Some c))"
  proof (cases r1)
    case (Inl e)
    with m1 n1 e1 h1 p1 show ?thesis
      by (auto simp: try_except_def except_Exception_def raise_def py_str_def)
  next
    case (Inr x)
    with m1 n1 e1 c1 h1 p1 show ?thesis
      by (auto simp: try_except_def)
  qed
qed

lemma andThen_returns: "andThen (returns x) f = f x"
  by (simp add: andThen_def returns_def)

lemma andThen_raise: "andThen (raise e) f = raise e"
  by (simp add: andThen_def raise_def)

lemmas traced_rules = traced_get_client traced_call traced_returns traced_raise traced_evaluate

lemma traced_get_balance:
  "traced (HTTPException 500) [Get_balance, Get_address_for_private_key] (get_balance rt (spy api))"
  unfolding get_balance_def
  by (intro traced_try_except) (rule traced_seq traced_rules | simp)+

lemma traced_get_open_orders:
  "traced (HTTPException 500) [Get_orders] (get_open_orders rt (spy api))"
  unfolding get_open_orders_def
  by (intro traced_try_except) (rule traced_seq traced_rules | simp)+

lemma traced_get_positions:
  "traced (HTTPException 500) [Get_positions] (get_positions rt (spy api))"
  unfolding get_positions_def
  by (intro traced_try_except) (rule traced_seq traced_rules | simp)+

lemma traced_place_market_order:
  "traced (HTTPException 500) [Place_market_order (token_id r) (side r) (amount r)]
     (place_market_order rt (spy api) r)"
  unfolding place_market_order_def
  by (intro traced_try_except) (rule traced_seq traced_rules | simp)+

lemma traced_place_limit_order:
  "traced (HTTPException 500)
     (case price r of None \<Rightarrow> [] | Some p \<Rightarrow> [Place_limit_order (token_id r) (side r) (amount r) p])
     (place_limit_order rt (spy api) r)"
proof (cases "price r")
  case None
  then show ?thesis unfolding place_limit_order_def
    by (simp add: andThen_raise) (intro traced_try_except traced_raise)
next
  case (Some p)
  have "traced (HTTPException 500) [Place_limit_order (token_id r) (side r) (amount r) p]
     (try_except
       (andThen (get_client (spy api)) (\<lambda>client.
        andThen (call (spy api) client
                   (Place_limit_order (token_id r) (side r) (amount r) p)) (\<lambda>result.
        andThen (evaluate (py_get result ''id'' PNone)) (\<lambda>v_id.
        andThen (evaluate (py_get result ''status'' PNone)) (\<lambda>v_status.
        returns (PDict [(''success'', PBool True), (''order_id'', v_id), (''status'', v_status)]))))))
       (except_Exception rt))"
    by (intro traced_try_except) (rule traced_seq traced_rules | simp)+
  with Some show ?thesis unfolding place_limit_order_def
    by (simp add: andThen_returns)
qed

lemma traced_cancel_order:
  "traced (HTTPException 500) [Cancel_order i] (cancel_order rt (spy api) i)"
  unfolding cancel_order_def
  by (intro traced_try_except) (rule traced_seq traced_rules | simp)+

lemma traced_get_orderbook:
  "traced (HTTPException 500) [Get_order_book t] (get_orderbook rt (spy api) t)"
  unfolding get_orderbook_def
  by (intro traced_try_except) (rule traced_seq traced_rules | simp)+

lemma traced_dispatch: "traced (HTTPException 500) (spec_client_calls req) (dispatch rt (spy api) req)"
  by (cases req)
    (simp_all add: health_check_def traced_returns traced_get_balance traced_get_open_orders
       traced_get_positions traced_place_market_order traced_place_limit_order
       traced_cancel_order traced_get_orderbook)

lemma try_except_fails:
  "try_except m (except_Exception rt) s = (Inl e, s') \<Longrightarrow> \<exists>msg. e = HTTPException 500 msg"
  by (auto simp: try_except_def except_Exception_def raise_def split: prod.splits sum.splits)

lemma dispatch_fails:
  "dispatch rt api req s = (Inl e, s') \<Longrightarrow> \<exists>msg. e = HTTPException 500 msg"
  by (cases req) (auto simp: handler_defs returns_def dest: try_except_fails)

lemma traced_serve:
  assumes "serve rt (spy api) req s = (resp, s')"
  shows "\<exists>r new. dispatch rt (spy api) req s = (r, s') \<and>
     resp = respond (response_model rt req r) \<and>
     events s' = events s @ new \<and>
     (\<forall>cl msg. (cl, Some msg) \<in> set new \<longrightarrow> r = Inl (HTTPException 500 msg)) \<and>
     (\<not> isl r \<longrightarrow> filter is_method new = map (\<lambda>cap. (Method cap, None)) (spec_client_calls req)) \<and>
     held s + new_constructions new = held s' \<and>
     (\<forall>c. polymarket_client s = Some c \<longrightarrow> polymarket_client s' = Some c)"
proof -
  obtain r where d: "dispatch rt (spy api) req s = (r, s')" and resp: "resp = respond (response_model rt req r)"
    using assms by (auto simp: serve_def split: prod.splits)
  from traced_dispatch [of req rt api] have
    "case dispatch rt (spy api) req s of (r, s') \<Rightarrow>
        (\<exists>new. events s' = events s @ new \<and>
           (\<forall>cl msg. (cl, Some msg) \<in> set new \<longrightarrow> r = Inl (HTTPException 500 msg)) \<and>
           (\<not> isl r \<longrightarrow> filter is_method new = map (\<lambda>cap. (Method cap, None)) (spec_client_calls req)) \<and>
           held s + new_constructions new = held s' \<and>
           (\<forall>c. polymarket_client s = Some c \<longrightarrow> polymarket_client s' = Some c))"
    unfolding traced_def by (rule spec)
  with d resp show ?thesis by simp
qed

lemma success_is_return:
  assumes "dispatch rt api req s = (r, s')" and "respond (response_model rt req r) = (200, body)"
  shows "\<not> isl r"
proof (cases r)
  case (Inl e)
  with assms(1) obtain msg where "e = HTTPException 500 msg" by (auto dest: dispatch_fails)
  with Inl assms(2) show ?thesis by (cases req) simp_all
next
  case (Inr b)
  then show ?thesis by simp
qed

lemma limit_order_needs_price:
  "price r = None \<Longrightarrow> isl (fst (place_limit_order rt api r s))"
  by (simp add: place_limit_order_def action_defs)

lemma serve_all_constructions:
  "serve_all rt (spy api) reqs s = (resps, s') \<Longrightarrow>
     held s + constructions s' = held s' + constructions s \<and>
     (\<forall>c. polymarket_client s = Some c \<longrightarrow> polymarket_client s' = Some c)"
proof (induction reqs arbitrary: s resps s')
  case Nil
  then show ?case by simp
next
  case (Cons req reqs)
  obtain resp s1 where step: "serve rt (spy api) req s = (resp, s1)" by (cases "serve rt (spy api) req s")
  obtain rest s2 where tail: "serve_all rt (spy api) reqs s1 = (rest, s2)"
    by (cases "serve_all rt (spy api) reqs s1")
  from Cons.prems step tail have s2: "s' = s2" by simp
  from traced_serve [OF step] obtain new where ev: "events s1 = events s @ new"
    and h: "held s + new_constructions new = held s1"
    and p: "\<forall>c. polymarket_client s = Some c \<longrightarrow> polymarket_client s1 = Some c"
    by blast
  from ev have "constructions s1 = constructions s + new_constructions new"
    by (simp add: constructions_def new_constructions_def)
  with h Cons.IH [OF tail] p s2 show ?case by auto
qed

lemma call_keeps_client: "polymarket_client (snd (call api c cap s)) = polymarket_client s"
  by (simp add: call_def split: prod.splits sum.splits)

lemma dispatch_keeps_client:
  assumes "polymarket_client s = Some c"
  shows "polymarket_client (snd (dispatch rt api req s)) = Some c"
  using assms
  by (cases req)
    (auto simp: handler_defs action_defs get_client_def call_def split: option.splits prod.splits sum.splits)

lemma dispatch_construction_fails:
  assumes "get_client api s = (Inl e, s1)" and "uses_client req"
  shows "dispatch rt api req s = (Inl (HTTPException 500 (py_str rt e)), s1)"
  using assms
  by (cases req) (auto simp: handler_defs action_defs split: option.splits)

lemma dispatch_constructs:
  assumes "polymarket_client s = None" and "Polymarket api (world s) = (Inr c, w)" and "uses_client req"
  shows "dispatch rt api req s = dispatch rt api req (s\<lparr>polymarket_client := Some c, world := w\<rparr>)"
  using assms
  by (cases req) (auto simp: handler_defs andThen_def try_except_def get_client_def raise_def returns_def split: option.splits)

subsection \<open>Entries of the listings\<close>

lemma bindE_Inr: "bindE (Inr x) f = f x"
  by (simp add: bindE_def)

lemma bindE_eq_Inr: "bindE r f = Inr y \<longleftrightarrow> (\<exists>x. r = Inr x \<and> f x = Inr y)"
  by (cases r) (simp_all add: bindE_def)

lemma float_field:
  "bindE (py_get (PDict kvs) k (PInt 0)) (py_float rt) =
     (case map_of kvs k of None \<Rightarrow> Inr (Finite 0) | Some v \<Rightarrow> py_float rt v)"
  by (simp add: bindE_def float_of_int_0 split: option.splits)

lemma order_entry_zero:
  assumes "k \<in> {''price'', ''size''}" and "map_of kvs k = None" and "order_entry rt (PDict kvs) = Inr out"
  shows "py_get out k PNone = Inr (PFloat (Finite 0))"
  using assms unfolding order_entry_def float_field
  by (auto simp: bindE_Inr bindE_eq_Inr)

lemma position_entry_zero:
  assumes "k \<in> {''size'', ''value'', ''entry_price'', ''current_price'', ''pnl''}"
    and "map_of kvs k = None" and "position_entry rt (PDict kvs) = Inr out"
  shows "py_get out k PNone = Inr (PFloat (Finite 0))"
  using assms unfolding position_entry_def float_field
  by (auto simp: bindE_Inr bindE_eq_Inr)

lemma isl_bindE: "isl (bindE r f) = (isl r \<or> isl (f (projr r)))"
  by (cases r) (simp_all add: bindE_def)

lemma isl_float_default:
  "isl (py_float rt (case m of None \<Rightarrow> PInt 0 | Some v \<Rightarrow> v)) =
     (\<not> (case m of None \<Rightarrow> True | Some v \<Rightarrow> \<not> isl (py_float rt v)))"
  by (cases m) (simp_all add: float_of_int_0)

lemma order_entry_accepted: "(\<not> isl (order_entry rt x)) = accepted rt [''price'', ''size''] x"
proof (cases x)
  case (PDict kvs)
  then show ?thesis
    by (simp add: order_entry_def accepted_def bindE_Inr isl_bindE isl_float_default)
qed (simp_all add: order_entry_def accepted_def bindE_def)

lemma position_entry_accepted:
  "(\<not> isl (position_entry rt x)) = accepted rt [''size'', ''value'', ''entry_price'', ''current_price'', ''pnl''] x"
proof (cases x)
  case (PDict kvs)
  then show ?thesis
    by (simp add: position_entry_def accepted_def bindE_Inr isl_bindE isl_float_default conj_commute conj_left_commute)
qed (simp_all add: position_entry_def accepted_def bindE_def)

lemma isl_append_entries:
  "isl (append_entries entry xs acc) = (\<not> list_all (\<lambda>x. \<not> isl (entry x)) xs)"
  by (induction xs arbitrary: acc) (auto split: sum.splits)

lemma listing_outcome:
  assumes "get_client api s = (Inr c, s1)"
  shows "(invoke api c Get_orders (world s1) = (Inr (PList xs), w) \<longrightarrow>
      (if list_all (accepted rt [''price'', ''size'']) xs
       then \<not> isl (fst (dispatch rt api GET_orders s))
       else fst (fst (serve rt api GET_orders s)) = 500)) \<and>
    (invoke api c Get_positions (world s1) = (Inr (PList xs), w) \<longrightarrow>
      (if list_all (accepted rt [''size'', ''value'', ''entry_price'', ''current_price'', ''pnl'']) xs
       then \<not> isl (fst (dispatch rt api GET_positions s))
       else fst (fst (serve rt api GET_positions s)) = 500))"
proof (intro conjI impI)
  assume i: "invoke api c Get_orders (world s1) = (Inr (PList xs), w)"
  have "isl (append_entries (order_entry rt) xs []) = (\<not> list_all (accepted rt [''price'', ''size'']) xs)"
    by (simp add: isl_append_entries order_entry_accepted)
  with assms i show "if list_all (accepted rt [''price'', ''size'']) xs
       then \<not> isl (fst (dispatch rt api GET_orders s))
       else fst (fst (serve rt api GET_orders s)) = 500"
    by (cases "append_entries (order_entry rt) xs []")
      (simp_all add: serve_def get_open_orders_def action_defs call_def bindE_def)
next
  assume i: "invoke api c Get_positions (world s1) = (Inr (PList xs), w)"
  have "isl (append_entries (position_entry rt) xs []) =
      (\<not> list_all (accepted rt [''size'', ''value'', ''entry_price'', ''current_price'', ''pnl'']) xs)"
    by (simp add: isl_append_entries position_entry_accepted)
  with assms i show "if list_all (accepted rt [''size'', ''value'', ''entry_price'', ''current_price'', ''pnl'']) xs
       then \<not> isl (fst (dispatch rt api GET_positions s))
       else fst (fst (serve rt api GET_positions s)) = 500"
    by (cases "append_entries (position_entry rt) xs []")
      (simp_all add: serve_def get_positions_def action_defs call_def bindE_def)
qed

lemma length_append_entries:
  "append_entries entry xs acc = Inr ys \<Longrightarrow> length ys = length acc + length xs"
  by (induction xs arbitrary: acc) (auto split: sum.splits)

subsection \<open>The handlers against the specification's normalization\<close>

lemma py_get_raw_field: "py_get (PDict kvs) k d = Inr (raw_field kvs k d)"
  by (simp add: raw_field_def)

lemma order_entry_spec: "order_entry rt x = spec_entry rt order_view x"
proof (cases x)
  case (PDict kvs)
  then show ?thesis
    by (simp add: order_entry_def spec_entry_def order_view_def spec_field_def py_get_raw_field bindE_def
          del: py_get.simps split: sum.splits)
qed (simp_all add: order_entry_def spec_entry_def bindE_def)

lemma position_entry_spec: "position_entry rt x = spec_entry rt position_view x"
proof (cases x)
  case (PDict kvs)
  then show ?thesis
    by (simp add: position_entry_def spec_entry_def position_view_def spec_field_def py_get_raw_field bindE_def
          del: py_get.simps split: sum.splits)
qed (simp_all add: position_entry_def spec_entry_def bindE_def)

lemma append_entries_first_error:
  "append_entries entry xs acc =
     (case first_error (map entry xs) of Inl e \<Rightarrow> Inl e | Inr ys \<Rightarrow> Inr (acc @ ys))"
  by (induction xs arbitrary: acc) (simp_all split: sum.splits)

lemma length_first_error: "first_error rs = Inr ys \<Longrightarrow> length ys = length rs"
  by (induction rs arbitrary: ys) (auto split: sum.splits)

lemma listing_spec:
  "bindE (py_iter v) (\<lambda>xs. append_entries (spec_entry rt cols) xs []) = Inr ys \<Longrightarrow>
     spec_listing rt cols name v = Inr (PDict [(name, PList ys), (''total'', PInt (int (length ys)))])"
  by (auto simp: bindE_def spec_listing_def append_entries_first_error dest: length_first_error
        split: sum.splits)

lemma listing_spec_fails:
  "bindE (py_iter v) (\<lambda>xs. append_entries (spec_entry rt cols) xs []) = Inl e \<Longrightarrow>
     spec_listing rt cols name v = Inl e"
  by (auto simp: bindE_def spec_listing_def append_entries_first_error split: sum.splits)

lemma dispatch_refines:
  assumes "uses_client req"
    and "get_client api s = (Inr c, s1)"
    and "invoke_all api c (spec_client_calls req) (world s1) = (Inr vs, w)"
  shows "dispatch rt api req s =
     ((case spec_response rt req vs of
         Inl e \<Rightarrow> Inl (HTTPException 500 (py_str rt e))
       | Inr body \<Rightarrow> Inr body),
      s1\<lparr>world := w\<rparr>)"
proof (cases req)
  case GET_health
  with assms show ?thesis by simp
next
  case GET_balance
  with assms show ?thesis
    by (auto simp: get_balance_def action_defs call_def split: prod.splits sum.splits)
next
  case GET_orders
  from assms(3) GET_orders obtain orders where i: "invoke api c Get_orders (world s1) = (Inr orders, w)"
    and vs: "vs = [orders]"
    by (auto split: prod.splits sum.splits)
  show ?thesis
  proof (cases "bindE (py_iter orders) (\<lambda>xs. append_entries (spec_entry rt order_view) xs [])")
    case (Inl e)
    from listing_spec_fails [OF Inl, of "''orders''"] Inl assms(2) i vs GET_orders show ?thesis
      by (simp add: get_open_orders_def action_defs call_def order_entry_spec [abs_def])
  next
    case (Inr ys)
    from listing_spec [OF Inr, of "''orders''"] Inr assms(2) i vs GET_orders show ?thesis
      by (simp add: get_open_orders_def action_defs call_def order_entry_spec [abs_def])
  qed
next
  case GET_positions
  from assms(3) GET_positions obtain positions where i: "invoke api c Get_positions (world s1) = (Inr positions, w)"
    and vs: "vs = [positions]"
    by (auto split: prod.splits sum.splits)
  show ?thesis
  proof (cases "bindE (py_iter positions) (\<lambda>xs. append_entries (spec_entry rt position_view) xs [])")
    case (Inl e)
    from listing_spec_fails [OF Inl, of "''positions''"] Inl assms(2) i vs GET_positions show ?thesis
      by (simp add: get_positions_def action_defs call_def position_entry_spec [abs_def])
  next
    case (Inr ys)
    from listing_spec [OF Inr, of "''positions''"] Inr assms(2) i vs GET_positions show ?thesis
      by (simp add: get_positions_def action_defs call_def position_entry_spec [abs_def])
  qed
next
  case (POST_order_market r)
  from assms(3) POST_order_market obtain result where
    i: "invoke api c (Place_market_order (token_id r) (side r) (amount r)) (world s1) = (Inr result, w)"
    and vs: "vs = [result]"
    by (auto split: prod.splits sum.splits)
  with assms(2) POST_order_market show ?thesis
    by (cases result)
      (simp_all add: place_market_order_def action_defs call_def spec_record_def raw_field_def)
next
  case (POST_order_limit r)
  with assms(1) obtain p where p: "price r = Some p" by auto
  from assms(3) POST_order_limit p obtain result where
    i: "invoke api c (Place_limit_order (token_id r) (side r) (amount r) p) (world s1) = (Inr result, w)"
    and vs: "vs = [result]"
    by (auto split: prod.splits sum.splits)
  with assms(2) POST_order_limit p show ?thesis
    by (cases result)
      (simp_all add: place_limit_order_def action_defs call_def spec_record_def raw_field_def)
next
  case (DELETE_order i)
  with assms show ?thesis
    by (auto simp: cancel_order_def action_defs call_def split: prod.splits sum.splits)
next
  case (GET_orderbook t)
  from assms(3) GET_orderbook obtain orderbook where
    i: "invoke api c (Get_order_book t) (world s1) = (Inr orderbook, w)"
    and vs: "vs = [orderbook]"
    by (auto split: prod.splits sum.splits)
  with assms(2) GET_orderbook show ?thesis
    by (cases orderbook)
      (simp_all add: get_orderbook_def action_defs call_def spec_record_def raw_field_def)
qed

subsection \<open>The claims\<close>

lemma limit_order_guard:
  "place_limit_order rt api (r\<lparr>price := None\<rparr>) s =
     (Inl (HTTPException 500 (exception_str rt (HTTPException 400 ''Price is required for limit orders''))), s)"
  by (simp add: place_limit_order_def action_defs py_str_def)

lemma decimal_400: "decimal 400 = ''400''"
  by code_simp

text \<open>
  C1: a limit order without a price. The handler raises \<open>HTTPException(400)\<close> inside its own
  \<open>try\<close> block, whose \<open>except Exception\<close> clause catches it and raises \<open>HTTPException(500)\<close>
  with the text of the first as detail: the answer is status 500, not 400. The client is
  neither constructed nor called: no event is recorded and the handle stays unset.
\<close>

theorem limit_order_without_price_is_500:
  "serve sample_runtime (spy scripted)
     (POST_order_limit \<lparr>token_id = ''T1'', side = ''BUY'', amount = Finite 10, price = None\<rparr>)
     (fresh ([], [])) =
   ((500, PDict [(''detail'', PStr ''400: Price is required for limit orders'')]), fresh ([], []))"
proof -
  have "place_limit_order sample_runtime (spy scripted)
          (\<lparr>token_id = ''T1'', side = ''BUY'', amount = Finite 10, price = None\<rparr>\<lparr>price := None\<rparr>)
          (fresh ([], [])) =
        (Inl (HTTPException 500
           (exception_str sample_runtime (HTTPException 400 ''Price is required for limit orders''))),
         fresh ([], []))"
    by (rule limit_order_guard)
  then show ?thesis
    by (simp add: serve_def sample_runtime_def decimal_400)
qed

text \<open>
  C2, as the code has it: in the entry built for a raw order or position record, a numeric
  field whose key is missing in the record is the float 0, present in the entry and never
  null. An entry is built exactly for the accepted records, the dicts whose numeric fields
  are each missing or a value \<open>float()\<close> accepts. When the client has returned a list of
  records, the handler of \<open>/orders\<close> or \<open>/positions\<close> returns its body if every record is
  accepted, so a missing field never makes it raise; and if some record is not accepted, as
  when a field is present and \<open>float()\<close> rejects it, the handler raises and the request is
  answered with status 500.
\<close>

theorem missing_numeric_field_is_zero:
  "(k \<in> {''price'', ''size''} \<and> map_of kvs k = None \<and> order_entry rt (PDict kvs) = Inr out \<longrightarrow>
      py_get out k PNone = Inr (PFloat (Finite 0))) \<and>
   (k \<in> {''size'', ''value'', ''entry_price'', ''current_price'', ''pnl''} \<and> map_of kvs k = None \<and>
      position_entry rt (PDict kvs) = Inr out \<longrightarrow>
      py_get out k PNone = Inr (PFloat (Finite 0))) \<and>
   (\<not> isl (order_entry rt x)) = accepted rt [''price'', ''size''] x \<and>
   (\<not> isl (position_entry rt x)) =
      accepted rt [''size'', ''value'', ''entry_price'', ''current_price'', ''pnl''] x \<and>
   (get_client api s = (Inr c, s1) \<and> invoke api c Get_orders (world s1) = (Inr (PList xs), w) \<longrightarrow>
      (if list_all (accepted rt [''price'', ''size'']) xs
       then \<not> isl (fst (dispatch rt api GET_orders s))
       else fst (fst (serve rt api GET_orders s)) = 500)) \<and>
   (get_client api s = (Inr c, s1) \<and> invoke api c Get_positions (world s1) = (Inr (PList xs), w) \<longrightarrow>
      (if list_all (accepted rt [''size'', ''value'', ''entry_price'', ''current_price'', ''pnl'']) xs
       then \<not> isl (fst (dispatch rt api GET_positions s))
       else fst (fst (serve rt api GET_positions s)) = 500))"
proof (intro conjI impI)
  assume a: "k \<in> {''price'', ''size''} \<and> map_of kvs k = None \<and> order_entry rt (PDict kvs) = Inr out"
  from a [THEN conjunct1] a [THEN conjunct2, THEN conjunct1] a [THEN conjunct2, THEN conjunct2]
  show "py_get out k PNone = Inr (PFloat (Finite 0))"
    by (rule order_entry_zero)
next
  assume a: "k \<in> {''size'', ''value'', ''entry_price'', ''current_price'', ''pnl''} \<and> map_of kvs k = None \<and>
      position_entry rt (PDict kvs) = Inr out"
  from a [THEN conjunct1] a [THEN conjunct2, THEN conjunct1] a [THEN conjunct2, THEN conjunct2]
  show "py_get out k PNone = Inr (PFloat (Finite 0))"
    by (rule position_entry_zero)
next
  show "(\<not> isl (order_entry rt x)) = accepted rt [''price'', ''size''] x"
    by (rule order_entry_accepted)
  show "(\<not> isl (position_entry rt x)) =
      accepted rt [''size'', ''value'', ''entry_price'', ''current_price'', ''pnl''] x"
    by (rule position_entry_accepted)
next
  assume a: "get_client api s = (Inr c, s1) \<and> invoke api c Get_orders (world s1) = (Inr (PList xs), w)"
  from listing_outcome [OF a [THEN conjunct1], THEN conjunct1, rule_format, OF a [THEN conjunct2]]
  show "if list_all (accepted rt [''price'', ''size'']) xs
       then \<not> isl (fst (dispatch rt api GET_orders s))
       else fst (fst (serve rt api GET_orders s)) = 500" .
next
  assume a: "get_client api s = (Inr c, s1) \<and> invoke api c Get_positions (world s1) = (Inr (PList xs), w)"
  from listing_outcome [OF a [THEN conjunct1], THEN conjunct2, rule_format, OF a [THEN conjunct2]]
  show "if list_all (accepted rt [''size'', ''value'', ''entry_price'', ''current_price'', ''pnl'']) xs
       then \<not> isl (fst (dispatch rt api GET_positions s))
       else fst (fst (serve rt api GET_positions s)) = 500" .
qed

text \<open>
  The theorem at an order without a price, at a position with no field at all, at a request
  that lists the order, whose handler returns, and at a request that lists a position whose
  \<open>pnl\<close> is a list, answered with status 500.
\<close>

theorem missing_numeric_field_is_zero_witness:
  "order_entry sample_runtime (PDict [(''id'', PStr ''A''), (''size'', PStr ''10'')]) =
     Inr (PDict [(''id'', PStr ''A''), (''market_id'', PNone), (''token_id'', PNone), (''side'', PNone),
            (''price'', PFloat (Finite 0)), (''size'', PFloat (Finite 10)), (''status'', PNone),
            (''timestamp'', PNone)]) \<and>
   py_get (PDict [(''id'', PStr ''A''), (''market_id'', PNone), (''token_id'', PNone), (''side'', PNone),
            (''price'', PFloat (Finite 0)), (''size'', PFloat (Finite 10)), (''status'', PNone),
            (''timestamp'', PNone)]) ''price'' PNone = Inr (PFloat (Finite 0)) \<and>
   position_entry sample_runtime (PDict []) =
     Inr (PDict [(''token_id'', PNone), (''market'', PNone), (''side'', PNone), (''size'', PFloat (Finite 0)),
            (''value'', PFloat (Finite 0)), (''entry_price'', PFloat (Finite 0)),
            (''current_price'', PFloat (Finite 0)), (''pnl'', PFloat (Finite 0))]) \<and>
   py_get (PDict [(''token_id'', PNone), (''market'', PNone), (''side'', PNone), (''size'', PFloat (Finite 0)),
            (''value'', PFloat (Finite 0)), (''entry_price'', PFloat (Finite 0)),
            (''current_price'', PFloat (Finite 0)), (''pnl'', PFloat (Finite 0))]) ''pnl'' PNone = Inr (PFloat (Finite 0)) \<and>
   \<not> isl (fst (dispatch sample_runtime scripted GET_orders
      (fresh [Inr PNone, Inr (PList [PDict [(''id'', PStr ''A''), (''size'', PStr ''10'')]])]))) \<and>
   fst (fst (serve sample_runtime scripted GET_positions
      (fresh [Inr PNone, Inr (PList [PDict [(''pnl'', PList [])]])]))) = 500"
proof -
  have o1: "''price'' \<in> {''price'', ''size''} \<and> map_of [(''id'', PStr ''A''), (''size'', PStr ''10'')] ''price'' = None \<and>
     order_entry sample_runtime (PDict [(''id'', PStr ''A''), (''size'', PStr ''10'')]) =
     Inr (PDict [(''id'', PStr ''A''), (''market_id'', PNone), (''token_id'', PNone), (''side'', PNone),
            (''price'', PFloat (Finite 0)), (''size'', PFloat (Finite 10)), (''status'', PNone),
            (''timestamp'', PNone)])"
    by (simp add: run_defs double_defs)
  have p1: "''pnl'' \<in> {''size'', ''value'', ''entry_price'', ''current_price'', ''pnl''} \<and>
     map_of ([] :: (string \<times> pyval) list) ''pnl'' = None \<and>
     position_entry sample_runtime (PDict []) =
     Inr (PDict [(''token_id'', PNone), (''market'', PNone), (''side'', PNone), (''size'', PFloat (Finite 0)),
            (''value'', PFloat (Finite 0)), (''entry_price'', PFloat (Finite 0)),
            (''current_price'', PFloat (Finite 0)), (''pnl'', PFloat (Finite 0))])"
    by (simp add: run_defs double_defs)
  have g1: "get_client scripted (fresh [Inr PNone, Inr (PList [PDict [(''id'', PStr ''A''), (''size'', PStr ''10'')]])]) =
      (Inr (), \<lparr>polymarket_client = Some (),
         world = [Inr (PList [PDict [(''id'', PStr ''A''), (''size'', PStr ''10'')]])]\<rparr>) \<and>
     invoke scripted () Get_orders
       (world \<lparr>polymarket_client = Some (),
         world = [Inr (PList [PDict [(''id'', PStr ''A''), (''size'', PStr ''10'')]])]\<rparr>) =
      (Inr (PList [PDict [(''id'', PStr ''A''), (''size'', PStr ''10'')]]), [])"
    by (simp add: get_client_def double_defs)
  have g2: "get_client scripted (fresh [Inr PNone, Inr (PList [PDict [(''pnl'', PList [])]])]) =
      (Inr (), \<lparr>polymarket_client = Some (), world = [Inr (PList [PDict [(''pnl'', PList [])]])]\<rparr>) \<and>
     invoke scripted () Get_positions
       (world \<lparr>polymarket_client = Some (), world = [Inr (PList [PDict [(''pnl'', PList [])]])]\<rparr>) =
      (Inr (PList [PDict [(''pnl'', PList [])]]), [])"
    by (simp add: get_client_def double_defs)
  note a = missing_numeric_field_is_zero [THEN conjunct1, rule_format, OF o1]
  note b = missing_numeric_field_is_zero [THEN conjunct2, THEN conjunct1, rule_format, OF p1]
  from missing_numeric_field_is_zero [THEN conjunct2, THEN conjunct2, THEN conjunct2, THEN conjunct2,
      THEN conjunct1, rule_format, OF g1, of sample_runtime]
  have c: "\<not> isl (fst (dispatch sample_runtime scripted GET_orders
      (fresh [Inr PNone, Inr (PList [PDict [(''id'', PStr ''A''), (''size'', PStr ''10'')]])])))"
    by (simp add: accepted_def double_defs)
  from missing_numeric_field_is_zero [THEN conjunct2, THEN conjunct2, THEN conjunct2, THEN conjunct2,
      THEN conjunct2, rule_format, OF g2, of sample_runtime]
  have d: "fst (fst (serve sample_runtime scripted GET_positions
      (fresh [Inr PNone, Inr (PList [PDict [(''pnl'', PList [])]])]))) = 500"
    by (simp add: accepted_def double_defs)
  show ?thesis
    by (intro conjI)
      (rule o1 [THEN conjunct2, THEN conjunct2] a p1 [THEN conjunct2, THEN conjunct2] b c d)+
qed

text \<open>
  C2 as stated fails on a field that is present and not a number: \<open>float(None)\<close> and
  \<open>float("abc")\<close> raise, the entry is not built, and \<open>GET /orders\<close> answers 500.
\<close>

theorem non_numeric_field_counterexample:
  "order_entry sample_runtime (PDict [(''id'', PStr ''A''), (''price'', PNone)]) = Inl (TypeError_float ''NoneType'') \<and>
   order_entry sample_runtime (PDict [(''id'', PStr ''A''), (''price'', PStr ''abc'')]) = Inl (ValueError_float ''abc'') \<and>
   fst (serve sample_runtime scripted GET_orders
          (fresh [Inr PNone, Inr (PList [PDict [(''id'', PStr ''A''), (''price'', PStr ''abc'')]])])) =
     (500, PDict [(''detail'', PStr (sample_exception_str (ValueError_float ''abc'')))])"
  by (simp add: run_defs double_defs)

lemma calls_on_success:
  assumes "serve rt (spy api) req s = ((200, body), s')"
    and "events s' = events s @ new"
  shows "filter is_method new = map (\<lambda>cap. (Method cap, None)) (spec_client_calls req) \<and>
         length (filter is_method new) = (if req = GET_health then 0 else if req = GET_balance then 2 else 1)"
proof -
  from traced_serve [OF assms(1)] obtain r new' where d: "dispatch rt (spy api) req s = (r, s')"
    and resp: "(200, body) = respond (response_model rt req r)"
    and ev: "events s' = events s @ new'"
    and calls: "\<not> isl r \<longrightarrow> filter is_method new' = map (\<lambda>cap. (Method cap, None)) (spec_client_calls req)"
    by blast
  from ev assms(2) have new: "new' = new" by simp
  from success_is_return [OF d resp [symmetric]] have ok: "\<not> isl r" .
  with calls new have *: "filter is_method new = map (\<lambda>cap. (Method cap, None)) (spec_client_calls req)"
    by simp
  have "length (spec_client_calls req) = (if req = GET_health then 0 else if req = GET_balance then 2 else 1)"
  proof (cases req)
    case (POST_order_limit x)
    with d ok limit_order_needs_price [of x rt "spy api" s] have "price x \<noteq> None" by auto
    with POST_order_limit show ?thesis by auto
  qed simp_all
  with * show ?thesis by simp
qed

text \<open>
  C3, as the code has it: a request answered with status 200 has made exactly the method
  calls the specification's table lists for its route, in that order and each returning
  normally: none for \<open>/health\<close>, two for \<open>/balance\<close> (\<open>get_balance\<close>, then
  \<open>get_address_for_private_key\<close>), one for every other route. And the calls are followed by
  one normalization pass over what they returned: once \<open>get_client\<close> has given the client and
  the listed calls have returned the values \<open>vs\<close>, the handler returns the body the
  specification's normalization makes of \<open>vs\<close> (for a listing, one entry for each record, in
  the order of the records), or raises the 500 exception with the text of the exception the
  normalization raised, and the outside world is as the calls left it.
\<close>

theorem calls_then_normalization:
  "(serve rt (spy api) req s = ((200, body), s') \<and> events s' = events s @ new \<longrightarrow>
      filter is_method new = map (\<lambda>cap. (Method cap, None)) (spec_client_calls req) \<and>
      length (filter is_method new) = (if req = GET_health then 0 else if req = GET_balance then 2 else 1)) \<and>
   (uses_client req \<and> get_client api' t = (Inr c, t1) \<and>
    invoke_all api' c (spec_client_calls req) (world t1) = (Inr vs, w) \<longrightarrow>
      dispatch rt api' req t =
        ((case spec_response rt req vs of
            Inl e \<Rightarrow> Inl (HTTPException 500 (py_str rt e))
          | Inr normalized \<Rightarrow> Inr normalized),
         t1\<lparr>world := w\<rparr>))"
proof (rule conjI; rule impI)
  assume a: "serve rt (spy api) req s = ((200, body), s') \<and> events s' = events s @ new"
  show "filter is_method new = map (\<lambda>cap. (Method cap, None)) (spec_client_calls req) \<and>
      length (filter is_method new) = (if req = GET_health then 0 else if req = GET_balance then 2 else 1)"
    by (rule calls_on_success [OF a [THEN conjunct1] a [THEN conjunct2]])
next
  assume a: "uses_client req \<and> get_client api' t = (Inr c, t1) \<and>
    invoke_all api' c (spec_client_calls req) (world t1) = (Inr vs, w)"
  from a [THEN conjunct1] a [THEN conjunct2, THEN conjunct1] a [THEN conjunct2, THEN conjunct2]
  show "dispatch rt api' req t =
        ((case spec_response rt req vs of
            Inl e \<Rightarrow> Inl (HTTPException 500 (py_str rt e))
          | Inr normalized \<Rightarrow> Inr normalized),
         t1\<lparr>world := w\<rparr>)"
    by (rule dispatch_refines)
qed

text \<open>
  The theorem at the specification's scenario, a market order placed through a fresh
  bridge (one construction, then the one call), and at a listing of two orders, whose body
  has the two entries in the order of the records.
\<close>

theorem calls_then_normalization_witness:
  "serve sample_runtime (spy scripted)
     (POST_order_market \<lparr>token_id = ''T1'', side = ''BUY'', amount = Finite 10, price = None\<rparr>)
     (fresh ([Inr PNone, Inr (PDict [(''id'', PStr ''O1''), (''status'', PStr ''FILLED''), (''filled_amount'', PInt 10)])], [])) =
     ((200, PDict [(''success'', PBool True), (''order_id'', PStr ''O1''), (''status'', PStr ''FILLED''),
                   (''filled_amount'', PInt 10)]),
      \<lparr>polymarket_client = Some (),
       world = ([], [(Construct, None), (Method (Place_market_order ''T1'' ''BUY'' (Finite 10)), None)])\<rparr>) \<and>
   filter is_method [(Construct, None), (Method (Place_market_order ''T1'' ''BUY'' (Finite 10)), None)] =
     [(Method (Place_market_order ''T1'' ''BUY'' (Finite 10)), None)] \<and>
   length (filter is_method [(Construct, None), (Method (Place_market_order ''T1'' ''BUY'' (Finite 10)), None)]) = 1 \<and>
   dispatch sample_runtime scripted GET_orders
     (fresh [Inr PNone,
        Inr (PList [PDict [(''id'', PStr ''A''), (''price'', PStr ''0.5'')],
                PDict [(''size'', PStr ''10''), (''market'', PStr ''M''), (''id'', PStr ''B'')]])]) =
     (Inr (PDict [(''orders'',
            PList [PDict [(''id'', PStr ''A''), (''market_id'', PNone), (''token_id'', PNone), (''side'', PNone),
                          (''price'', PFloat (Finite (1 / 2))), (''size'', PFloat (Finite 0)),
                          (''status'', PNone), (''timestamp'', PNone)],
                   PDict [(''id'', PStr ''B''), (''market_id'', PStr ''M''), (''token_id'', PNone), (''side'', PNone),
                          (''price'', PFloat (Finite 0)), (''size'', PFloat (Finite 10)),
                          (''status'', PNone), (''timestamp'', PNone)]]),
           (''total'', PInt 2)]),
      \<lparr>polymarket_client = Some (), world = []\<rparr>)"
proof -
  have run: "serve sample_runtime (spy scripted)
     (POST_order_market \<lparr>token_id = ''T1'', side = ''BUY'', amount = Finite 10, price = None\<rparr>)
     (fresh ([Inr PNone, Inr (PDict [(''id'', PStr ''O1''), (''status'', PStr ''FILLED''), (''filled_amount'', PInt 10)])], [])) =
     ((200, PDict [(''success'', PBool True), (''order_id'', PStr ''O1''), (''status'', PStr ''FILLED''),
                   (''filled_amount'', PInt 10)]),
      \<lparr>polymarket_client = Some (),
       world = ([], [(Construct, None), (Method (Place_market_order ''T1'' ''BUY'' (Finite 10)), None)])\<rparr>)"
    by (simp add: run_defs double_defs)
  have ev: "events \<lparr>polymarket_client = Some (),
       world = ([], [(Construct, None), (Method (Place_market_order ''T1'' ''BUY'' (Finite 10)), None)])\<rparr> =
     events (fresh ([Inr PNone, Inr (PDict [(''id'', PStr ''O1''), (''status'', PStr ''FILLED''), (''filled_amount'', PInt 10)])], [])) @
     [(Construct, None), (Method (Place_market_order ''T1'' ''BUY'' (Finite 10)), None)]"
    by (simp add: double_defs)
  have h: "uses_client GET_orders \<and>
     get_client scripted
       (fresh [Inr PNone,
          Inr (PList [PDict [(''id'', PStr ''A''), (''price'', PStr ''0.5'')],
                PDict [(''size'', PStr ''10''), (''market'', PStr ''M''), (''id'', PStr ''B'')]])]) =
       (Inr (), \<lparr>polymarket_client = Some (),
          world = [Inr (PList [PDict [(''id'', PStr ''A''), (''price'', PStr ''0.5'')],
                PDict [(''size'', PStr ''10''), (''market'', PStr ''M''), (''id'', PStr ''B'')]])]\<rparr>) \<and>
     invoke_all scripted () (spec_client_calls GET_orders)
       (world \<lparr>polymarket_client = Some (),
          world = [Inr (PList [PDict [(''id'', PStr ''A''), (''price'', PStr ''0.5'')],
                PDict [(''size'', PStr ''10''), (''market'', PStr ''M''), (''id'', PStr ''B'')]])]\<rparr>) =
       (Inr [PList [PDict [(''id'', PStr ''A''), (''price'', PStr ''0.5'')],
                PDict [(''size'', PStr ''10''), (''market'', PStr ''M''), (''id'', PStr ''B'')]]], [])"
    by (simp add: get_client_def double_defs)
  note calls = calls_then_normalization [THEN conjunct1, rule_format, OF conjI [OF run ev]]
  from calls_then_normalization [THEN conjunct2, rule_format, OF h, of sample_runtime]
  have norm: "dispatch sample_runtime scripted GET_orders
     (fresh [Inr PNone,
        Inr (PList [PDict [(''id'', PStr ''A''), (''price'', PStr ''0.5'')],
                PDict [(''size'', PStr ''10''), (''market'', PStr ''M''), (''id'', PStr ''B'')]])]) =
     (Inr (PDict [(''orders'',
            PList [PDict [(''id'', PStr ''A''), (''market_id'', PNone), (''token_id'', PNone), (''side'', PNone),
                          (''price'', PFloat (Finite (1 / 2))), (''size'', PFloat (Finite 0)),
                          (''status'', PNone), (''timestamp'', PNone)],
                   PDict [(''id'', PStr ''B''), (''market_id'', PStr ''M''), (''token_id'', PNone), (''side'', PNone),
                          (''price'', PFloat (Finite 0)), (''size'', PFloat (Finite 10)),
                          (''status'', PNone), (''timestamp'', PNone)]]),
           (''total'', PInt 2)]),
      \<lparr>polymarket_client = Some (), world = []\<rparr>)"
    by (simp add: spec_listing_def spec_entry_def spec_field_def order_view_def raw_field_def
          float_of_int_0 sample_runtime_def)
  from run calls norm show ?thesis by simp
qed

text \<open>
  C3 as stated fails on \<open>/balance\<close>: a successful request has called the client twice.
\<close>

theorem balance_makes_two_calls_counterexample:
  "fst (serve sample_runtime (spy scripted) GET_balance
          (fresh ([Inr PNone, Inr (PFloat (Finite 12)), Inr (PStr ''0xabc'')], []))) =
     (200, PDict [(''usdc_balance'', PFloat (Finite 12)), (''address'', PStr ''0xabc'')]) \<and>
   method_calls (snd (serve sample_runtime (spy scripted) GET_balance
          (fresh ([Inr PNone, Inr (PFloat (Finite 12)), Inr (PStr ''0xabc'')], [])))) = 2"
  by (simp add: run_defs double_defs)

text \<open>
  C4: once \<open>get_client\<close> has given the client and its \<open>cancel_order\<close> has returned, whatever
  the value \<open>v\<close> it returned, \<open>DELETE /order/{id}\<close> answers status 200 with exactly
  \<open>{success: true, order_id: id, status: "cancelled"}\<close>.
\<close>

theorem cancel_order_unconditional:
  assumes "get_client api s = (Inr c, s1)"
    and "invoke api c (Cancel_order i) (world s1) = (Inr v, w)"
  shows "serve rt api (DELETE_order i) s =
     ((200, PDict [(''success'', PBool True), (''order_id'', PStr i), (''status'', PStr ''cancelled'')]),
      s1\<lparr>world := w\<rparr>)"
  using assms by (simp add: serve_def cancel_order_def action_defs call_def)

text \<open>
  The theorem at a client whose \<open>cancel_order\<close> reports a failure in its return value.
\<close>

theorem cancel_order_unconditional_witness:
  "get_client scripted (fresh [Inr PNone, Inr (PDict [(''success'', PBool False)])]) =
     (Inr (), \<lparr>polymarket_client = Some (), world = [Inr (PDict [(''success'', PBool False)])]\<rparr>) \<and>
   invoke scripted () (Cancel_order ''42'') [Inr (PDict [(''success'', PBool False)])] =
     (Inr (PDict [(''success'', PBool False)]), []) \<and>
   serve sample_runtime scripted (DELETE_order ''42'') (fresh [Inr PNone, Inr (PDict [(''success'', PBool False)])]) =
     ((200, PDict [(''success'', PBool True), (''order_id'', PStr ''42''), (''status'', PStr ''cancelled'')]),
      \<lparr>polymarket_client = Some (), world = []\<rparr>)"
proof -
  have g: "get_client scripted (fresh [Inr PNone, Inr (PDict [(''success'', PBool False)])]) =
     (Inr (), \<lparr>polymarket_client = Some (), world = [Inr (PDict [(''success'', PBool False)])]\<rparr>)"
    by (simp add: get_client_def double_defs)
  have i: "invoke scripted () (Cancel_order ''42'')
             (world \<lparr>polymarket_client = Some (), world = [Inr (PDict [(''success'', PBool False)])]\<rparr>) =
     (Inr (PDict [(''success'', PBool False)]), [])"
    by (simp add: double_defs)
  from cancel_order_unconditional [OF g i, of sample_runtime] g i show ?thesis by simp
qed

text \<open>
  C5: if, while a request of any route is handled, the construction of the client or one of
  its methods raises an exception of text \<open>msg\<close>, the answer is status 500 with the body
  \<open>{detail: msg}\<close>, the text unchanged and the same shape for every exception.
\<close>

theorem client_failure_is_500:
  assumes "serve rt (spy api) req s = (resp, s')"
    and "events s' = events s @ new"
    and "(cl, Some msg) \<in> set new"
  shows "resp = (500, PDict [(''detail'', PStr msg)])"
proof -
  from traced_serve [OF assms(1)] obtain r new' where resp: "resp = respond (response_model rt req r)"
    and ev: "events s' = events s @ new'"
    and raised: "\<forall>cl msg. (cl, Some msg) \<in> set new' \<longrightarrow> r = Inl (HTTPException 500 msg)"
    by blast
  from ev assms(2) have "new' = new" by simp
  with raised assms(3) have "r = Inl (HTTPException 500 msg)" by blast
  with resp show ?thesis by (cases req) simp_all
qed

text \<open>
  The theorem at a client that is constructed and whose \<open>get_positions\<close> then raises.
\<close>

theorem client_failure_is_500_witness:
  "serve sample_runtime (spy scripted) GET_positions (fresh ([Inr PNone, Inl ''connection refused''], [])) =
     ((500, PDict [(''detail'', PStr ''connection refused'')]),
      \<lparr>polymarket_client = Some (),
       world = ([], [(Construct, None), (Method Get_positions, Some ''connection refused'')])\<rparr>) \<and>
   (Method Get_positions, Some ''connection refused'') \<in>
     set [(Construct, None), (Method Get_positions, Some ''connection refused'')]"
proof -
  obtain resp s' where run:
    "serve sample_runtime (spy scripted) GET_positions (fresh ([Inr PNone, Inl ''connection refused''], [])) = (resp, s')"
    by (cases "serve sample_runtime (spy scripted) GET_positions (fresh ([Inr PNone, Inl ''connection refused''], []))")
  then have s': "s' = \<lparr>polymarket_client = Some (),
       world = ([], [(Construct, None), (Method Get_positions, Some ''connection refused'')])\<rparr>"
    by (simp add: run_defs double_defs)
  then have ev: "events s' = events (fresh ([Inr PNone, Inl ''connection refused''], [])) @
      [(Construct, None), (Method Get_positions, Some ''connection refused'')]"
    by (simp add: double_defs)
  have mem: "(Method Get_positions, Some ''connection refused'') \<in>
     set [(Construct, None), (Method Get_positions, Some ''connection refused'')]"
    by simp
  from client_failure_is_500 [OF run ev mem] run s' mem show ?thesis by simp
qed

text \<open>
  C6: when the handle is unset and the construction of the client raises with text \<open>msg\<close>,
  a request that needs the client answers status 500 with detail \<open>msg\<close> and leaves the handle
  unset. The next such request constructs again: if that raises too, it answers 500 with
  the new text; if it succeeds, the request proceeds as it does with that client stored,
  and the handle holds it afterwards.
\<close>

theorem construction_failure_is_retried:
  assumes "polymarket_client s = None" and "uses_client req" and "uses_client req2"
    and "Polymarket api (world s) = (Inl msg, w1)"
  shows "serve rt api req s = ((500, PDict [(''detail'', PStr msg)]), s\<lparr>world := w1\<rparr>) \<and>
    polymarket_client (snd (serve rt api req s)) = None \<and>
    (\<forall>msg2 w2. Polymarket api w1 = (Inl msg2, w2) \<longrightarrow>
       serve rt api req2 (s\<lparr>world := w1\<rparr>) = ((500, PDict [(''detail'', PStr msg2)]), s\<lparr>world := w2\<rparr>)) \<and>
    (\<forall>c w2. Polymarket api w1 = (Inr c, w2) \<longrightarrow>
       serve rt api req2 (s\<lparr>world := w1\<rparr>) = serve rt api req2 (s\<lparr>polymarket_client := Some c, world := w2\<rparr>) \<and>
       polymarket_client (snd (serve rt api req2 (s\<lparr>world := w1\<rparr>))) = Some c)"
proof -
  have fails: "serve rt api r t = ((500, PDict [(''detail'', PStr m)]), t\<lparr>world := w\<rparr>)"
    if "polymarket_client t = None" and "uses_client r" and "Polymarket api (world t) = (Inl m, w)"
    for r m w and t :: "('a, 'b) bridge"
  proof -
    from that have "get_client api t = (Inl (ClientError m), t\<lparr>world := w\<rparr>)"
      by (simp add: get_client_def)
    from dispatch_construction_fails [OF this that(2)]
    show ?thesis by (cases r) (simp_all add: serve_def py_str_def)
  qed
  have first: "serve rt api req s = ((500, PDict [(''detail'', PStr msg)]), s\<lparr>world := w1\<rparr>)"
    using assms by (intro fails)
  have again: "serve rt api req2 (s\<lparr>world := w1\<rparr>) = ((500, PDict [(''detail'', PStr msg2)]), s\<lparr>world := w2\<rparr>)"
    if "Polymarket api w1 = (Inl msg2, w2)" for msg2 w2
    using fails [of "s\<lparr>world := w1\<rparr>" req2 msg2 w2] assms that by simp
  have later: "serve rt api req2 (s\<lparr>world := w1\<rparr>) = serve rt api req2 (s\<lparr>polymarket_client := Some c, world := w2\<rparr>) \<and>
       polymarket_client (snd (serve rt api req2 (s\<lparr>world := w1\<rparr>))) = Some c"
    if "Polymarket api w1 = (Inr c, w2)" for c w2
  proof -
    from dispatch_constructs [of "s\<lparr>world := w1\<rparr>" api c w2 req2 rt] assms that
    have eq: "dispatch rt api req2 (s\<lparr>world := w1\<rparr>) = dispatch rt api req2 (s\<lparr>polymarket_client := Some c, world := w2\<rparr>)"
      by simp
    then have "serve rt api req2 (s\<lparr>world := w1\<rparr>) = serve rt api req2 (s\<lparr>polymarket_client := Some c, world := w2\<rparr>)"
      by (simp add: serve_def)
    moreover have "polymarket_client (snd (serve rt api req2 (s\<lparr>polymarket_client := Some c, world := w2\<rparr>))) = Some c"
      using dispatch_keeps_client [of "s\<lparr>polymarket_client := Some c, world := w2\<rparr>" c rt api req2]
      by (cases "dispatch rt api req2 (s\<lparr>polymarket_client := Some c, world := w2\<rparr>)") (simp add: serve_def)
    ultimately show ?thesis by simp
  qed
  show ?thesis
  proof (intro conjI allI impI)
    show "serve rt api req s = ((500, PDict [(''detail'', PStr msg)]), s\<lparr>world := w1\<rparr>)"
      by (rule first)
    show "polymarket_client (snd (serve rt api req s)) = None"
      using first assms(1) by simp
  next
    fix msg2 w2
    assume "Polymarket api w1 = (Inl msg2, w2)"
    then show "serve rt api req2 (s\<lparr>world := w1\<rparr>) = ((500, PDict [(''detail'', PStr msg2)]), s\<lparr>world := w2\<rparr>)"
      by (rule again)
  next
    fix c w2
    assume "Polymarket api w1 = (Inr c, w2)"
    then show "serve rt api req2 (s\<lparr>world := w1\<rparr>) = serve rt api req2 (s\<lparr>polymarket_client := Some c, world := w2\<rparr>)"
      by (rule later [THEN conjunct1])
  next
    fix c w2
    assume "Polymarket api w1 = (Inr c, w2)"
    then show "polymarket_client (snd (serve rt api req2 (s\<lparr>world := w1\<rparr>))) = Some c"
      by (rule later [THEN conjunct2])
  qed
qed

text \<open>
  The theorem at a client whose first construction raises and whose second succeeds, and at
  one whose construction raises twice with different texts.
\<close>

theorem construction_failure_is_retried_witness:
  "serve sample_runtime scripted GET_orders (fresh [Inl ''missing private key'', Inr PNone, Inr (PList [])]) =
     ((500, PDict [(''detail'', PStr ''missing private key'')]), fresh [Inr PNone, Inr (PList [])]) \<and>
   serve sample_runtime scripted GET_orders (fresh [Inr PNone, Inr (PList [])]) =
     ((200, PDict [(''orders'', PList []), (''total'', PInt 0)]), \<lparr>polymarket_client = Some (), world = []\<rparr>) \<and>
   serve sample_runtime scripted GET_orders (fresh [Inl ''still missing'', Inr PNone]) =
     ((500, PDict [(''detail'', PStr ''still missing'')]), fresh [Inr PNone])"
proof -
  have none: "polymarket_client (fresh w) = None" for w :: "(string + pyval) list"
    by (simp add: fresh_def)
  have upd: "(fresh w :: (unit, (string + pyval) list) bridge)\<lparr>world := w'\<rparr> = fresh w'"
    for w w' :: "(string + pyval) list"
    by (simp add: fresh_def)
  have u: "uses_client GET_orders" by simp
  have c1: "Polymarket scripted (world (fresh [Inl ''missing private key'', Inr PNone, Inr (PList [])])) =
      (Inl ''missing private key'', [Inr PNone, Inr (PList [])])"
    by (simp add: double_defs)
  have c2: "Polymarket scripted [Inr PNone, Inr (PList [])] = (Inr (), [Inr (PList [])])"
    by (simp add: double_defs)
  have stored: "serve sample_runtime scripted GET_orders \<lparr>polymarket_client = Some (), world = [Inr (PList [])]\<rparr> =
     ((200, PDict [(''orders'', PList []), (''total'', PInt 0)]), \<lparr>polymarket_client = Some (), world = []\<rparr>)"
    by (simp add: run_defs double_defs)
  have c3: "Polymarket scripted (world (fresh [Inl ''still missing'', Inr PNone])) = (Inl ''still missing'', [Inr PNone])"
    by (simp add: double_defs)
  note first = construction_failure_is_retried [OF none u u c1, of sample_runtime]
  note again = construction_failure_is_retried [OF none u u c3, of sample_runtime]
  from first [THEN conjunct1] have a: "serve sample_runtime scripted GET_orders (fresh [Inl ''missing private key'', Inr PNone, Inr (PList [])]) =
     ((500, PDict [(''detail'', PStr ''missing private key'')]), fresh [Inr PNone, Inr (PList [])])"
    by (simp add: upd)
  from first [THEN conjunct2, THEN conjunct2, THEN conjunct2, rule_format, OF c2, THEN conjunct1]
  have b: "serve sample_runtime scripted GET_orders (fresh [Inr PNone, Inr (PList [])]) =
     ((200, PDict [(''orders'', PList []), (''total'', PInt 0)]), \<lparr>polymarket_client = Some (), world = []\<rparr>)"
    using stored by (simp add: upd fresh_def)
  from again [THEN conjunct1] have c: "serve sample_runtime scripted GET_orders (fresh [Inl ''still missing'', Inr PNone]) =
     ((500, PDict [(''detail'', PStr ''still missing'')]), fresh [Inr PNone])"
    by (simp add: upd)
  from a b c show ?thesis by simp
qed

text \<open>
  C7: a call of \<open>get_client\<close> that returns a client has stored it; once a client is stored,
  \<open>get_client\<close> returns that client and changes nothing (no event is recorded), and
  however many requests follow, the handle holds the same client and no further successful
  construction is recorded; and from a fresh bridge, over any sequence of requests, at most
  one construction succeeds.
\<close>

theorem client_constructed_at_most_once:
  "(get_client (spy api) s = (Inr c, s') \<longrightarrow> polymarket_client s' = Some c) \<and>
   (polymarket_client s = Some c \<longrightarrow>
      get_client (spy api) s = (Inr c, s) \<and>
      polymarket_client (snd (serve_all rt (spy api) reqs s)) = Some c \<and>
      constructions (snd (serve_all rt (spy api) reqs s)) = constructions s) \<and>
   constructions (snd (serve_all rt (spy api) reqs (fresh (w, [])))) \<le> 1"
proof (intro conjI impI)
  assume "get_client (spy api) s = (Inr c, s')"
  then show "polymarket_client s' = Some c"
    by (auto simp: get_client_def split: option.splits prod.splits sum.splits)
next
  assume "polymarket_client s = Some c"
  then show "get_client (spy api) s = (Inr c, s)" by (simp add: get_client_def)
next
  assume c: "polymarket_client s = Some c"
  obtain resps s2 where run: "serve_all rt (spy api) reqs s = (resps, s2)"
    by (cases "serve_all rt (spy api) reqs s")
  from serve_all_constructions [OF run] c have "polymarket_client s2 = Some c" by simp
  with run show "polymarket_client (snd (serve_all rt (spy api) reqs s)) = Some c" by simp
next
  assume c: "polymarket_client s = Some c"
  obtain resps s2 where run: "serve_all rt (spy api) reqs s = (resps, s2)"
    by (cases "serve_all rt (spy api) reqs s")
  from serve_all_constructions [OF run] c have "constructions s2 = constructions s"
    by (auto simp: held_def)
  with run show "constructions (snd (serve_all rt (spy api) reqs s)) = constructions s" by simp
next
  obtain resps s2 where run: "serve_all rt (spy api) reqs (fresh (w, [])) = (resps, s2)"
    by (cases "serve_all rt (spy api) reqs (fresh (w, []))")
  from serve_all_constructions [OF run] have "constructions s2 = held s2"
    by (simp add: held_def fresh_def constructions_def events_def)
  then have "constructions s2 \<le> 1" by (simp add: held_def)
  with run show "constructions (snd (serve_all rt (spy api) reqs (fresh (w, [])))) \<le> 1" by simp
qed

text \<open>
  The theorem at a scripted client: the first \<open>get_client\<close>, requests served with the client
  stored, and a run whose first construction raises and whose second succeeds.
\<close>

theorem client_constructed_at_most_once_witness:
  "get_client (spy scripted) (fresh ([Inr PNone], [])) =
     (Inr (), \<lparr>polymarket_client = Some (), world = ([], [(Construct, None)])\<rparr>) \<and>
   polymarket_client \<lparr>polymarket_client = Some (), world = ([] :: (string + pyval) list, [(Construct, None)])\<rparr> = Some () \<and>
   get_client (spy scripted) \<lparr>polymarket_client = Some (), world = ([Inr (PList [])], [(Construct, None)])\<rparr> =
     (Inr (), \<lparr>polymarket_client = Some (), world = ([Inr (PList [])], [(Construct, None)])\<rparr>) \<and>
   polymarket_client (snd (serve_all sample_runtime (spy scripted) [GET_orders, GET_health]
      \<lparr>polymarket_client = Some (), world = ([Inr (PList [])], [(Construct, None)])\<rparr>)) = Some () \<and>
   constructions (snd (serve_all sample_runtime (spy scripted) [GET_orders, GET_health]
      \<lparr>polymarket_client = Some (), world = ([Inr (PList [])], [(Construct, None)])\<rparr>)) = 1 \<and>
   constructions (snd (serve_all sample_runtime (spy scripted) [GET_orders, GET_orders, GET_positions]
      (fresh ([Inl ''missing private key'', Inr PNone, Inr (PList []), Inr (PList [])], [])))) \<le> 1"
proof -
  have g: "get_client (spy scripted) (fresh ([Inr PNone], [])) =
     (Inr (), \<lparr>polymarket_client = Some (), world = ([], [(Construct, None)])\<rparr>)"
    by (simp add: get_client_def double_defs)
  have h: "polymarket_client \<lparr>polymarket_client = Some (), world = ([Inr (PList [])] :: (string + pyval) list, [(Construct, None)] :: event list)\<rparr> = Some ()"
    by simp
  have k: "constructions \<lparr>polymarket_client = Some (), world = ([Inr (PList [])] :: (string + pyval) list, [(Construct, None)] :: event list)\<rparr> = 1"
    by (simp add: double_defs)
  note first = client_constructed_at_most_once [THEN conjunct1, rule_format, OF g]
  note second = client_constructed_at_most_once [THEN conjunct2, THEN conjunct1, rule_format, OF h,
      of scripted sample_runtime "[GET_orders, GET_health]"]
  note third = client_constructed_at_most_once [THEN conjunct2, THEN conjunct2,
      of sample_runtime scripted "[GET_orders, GET_orders, GET_positions]"
         "[Inl ''missing private key'', Inr PNone, Inr (PList []), Inr (PList [])]"]
  from g first second third k show ?thesis by simp
qed

text \<open>
  C8: in a successful answer of \<open>/orders\<close> or of \<open>/positions\<close>, \<open>total\<close> is the length of
  the list in the same body.
\<close>

theorem total_is_length:
  "(fst (serve rt api GET_orders s) = (200, body) \<longrightarrow>
      (\<exists>xs. body = PDict [(''orders'', PList xs), (''total'', PInt (int (length xs)))])) \<and>
   (fst (serve rt api GET_positions s) = (200, body) \<longrightarrow>
      (\<exists>xs. body = PDict [(''positions'', PList xs), (''total'', PInt (int (length xs)))]))"
  by (auto simp: serve_def get_open_orders_def get_positions_def action_defs split: prod.splits sum.splits)

text \<open>
  The theorem at an empty list of orders and at two positions.
\<close>

theorem total_is_length_witness:
  "fst (serve sample_runtime scripted GET_orders (fresh [Inr PNone, Inr (PList [])])) =
     (200, PDict [(''orders'', PList []), (''total'', PInt 0)]) \<and>
   (\<exists>xs. PDict [(''orders'', PList []), (''total'', PInt 0)] =
      PDict [(''orders'', PList xs), (''total'', PInt (int (length xs)))]) \<and>
   fst (serve sample_runtime scripted GET_positions
      (fresh [Inr PNone, Inr (PList [PDict [(''asset_id'', PStr ''T1''), (''size'', PStr ''10'')], PDict []])])) =
     (200, PDict [(''positions'',
        PList [PDict [(''token_id'', PStr ''T1''), (''market'', PNone), (''side'', PNone),
                      (''size'', PFloat (Finite 10)), (''value'', PFloat (Finite 0)),
                      (''entry_price'', PFloat (Finite 0)), (''current_price'', PFloat (Finite 0)),
                      (''pnl'', PFloat (Finite 0))],
               PDict [(''token_id'', PNone), (''market'', PNone), (''side'', PNone),
                      (''size'', PFloat (Finite 0)), (''value'', PFloat (Finite 0)),
                      (''entry_price'', PFloat (Finite 0)), (''current_price'', PFloat (Finite 0)),
                      (''pnl'', PFloat (Finite 0))]]),
       (''total'', PInt 2)]) \<and>
   (\<exists>xs. PDict [(''positions'',
        PList [PDict [(''token_id'', PStr ''T1''), (''market'', PNone), (''side'', PNone),
                      (''size'', PFloat (Finite 10)), (''value'', PFloat (Finite 0)),
                      (''entry_price'', PFloat (Finite 0)), (''current_price'', PFloat (Finite 0)),
                      (''pnl'', PFloat (Finite 0))],
               PDict [(''token_id'', PNone), (''market'', PNone), (''side'', PNone),
                      (''size'', PFloat (Finite 0)), (''value'', PFloat (Finite 0)),
                      (''entry_price'', PFloat (Finite 0)), (''current_price'', PFloat (Finite 0)),
                      (''pnl'', PFloat (Finite 0))]]),
       (''total'', PInt 2)] =
      PDict [(''positions'', PList xs), (''total'', PInt (int (length xs)))])"
proof -
  have o: "fst (serve sample_runtime scripted GET_orders (fresh [Inr PNone, Inr (PList [])])) =
     (200, PDict [(''orders'', PList []), (''total'', PInt 0)])"
    by (simp add: run_defs double_defs)
  have p: "fst (serve sample_runtime scripted GET_positions
      (fresh [Inr PNone, Inr (PList [PDict [(''asset_id'', PStr ''T1''), (''size'', PStr ''10'')], PDict []])])) =
     (200, PDict [(''positions'',
        PList [PDict [(''token_id'', PStr ''T1''), (''market'', PNone), (''side'', PNone),
                      (''size'', PFloat (Finite 10)), (''value'', PFloat (Finite 0)),
                      (''entry_price'', PFloat (Finite 0)), (''current_price'', PFloat (Finite 0)),
                      (''pnl'', PFloat (Finite 0))],
               PDict [(''token_id'', PNone), (''market'', PNone), (''side'', PNone),
                      (''size'', PFloat (Finite 0)), (''value'', PFloat (Finite 0)),
                      (''entry_price'', PFloat (Finite 0)), (''current_price'', PFloat (Finite 0)),
                      (''pnl'', PFloat (Finite 0))]]),
       (''total'', PInt 2)])"
    by (simp add: run_defs double_defs)
  from total_is_length [THEN conjunct1, rule_format, OF o]
    total_is_length [THEN conjunct2, rule_format, OF p] o p
  show ?thesis by blast
qed

text \<open>
  C9: \<open>GET /health\<close> answers \<open>{status: "ok", service: "polymarket-clob-bridge"}\<close> with
  status 200 whatever the state of the client handle, and leaves the handle and the outside
  world as they were, so no construction and no method call of the client takes place.
\<close>

theorem health_check_always_ok:
  "serve rt api GET_health s =
     ((200, PDict [(''status'', PStr ''ok''), (''service'', PStr ''polymarket-clob-bridge'')]), s)"
  by (simp add: serve_def health_check_def returns_def)

text \<open>
  C10: when the client's \<open>place_market_order\<close> or \<open>place_limit_order\<close> has returned a
  record, the answer is status 200 with \<open>success\<close> true and with \<open>order_id\<close>, \<open>status\<close> (and
  \<open>filled_amount\<close> for a market order) being the record's \<open>id\<close>, \<open>status\<close> and
  \<open>filled_amount\<close>, each null when the record lacks it; and a success answer is given only
  for a record.
\<close>

theorem order_placement_passes_fields_through:
  assumes "get_client api s = (Inr c, s1)"
  shows "(invoke api c (Place_market_order (token_id r) (side r) (amount r)) (world s1) = (Inr result, w) \<longrightarrow>
      (\<forall>kvs. result = PDict kvs \<longrightarrow>
         serve rt api (POST_order_market r) s =
           ((200, PDict [(''success'', PBool True),
                         (''order_id'', case map_of kvs ''id'' of None \<Rightarrow> PNone | Some v \<Rightarrow> v),
                         (''status'', case map_of kvs ''status'' of None \<Rightarrow> PNone | Some v \<Rightarrow> v),
                         (''filled_amount'', case map_of kvs ''filled_amount'' of None \<Rightarrow> PNone | Some v \<Rightarrow> v)]),
            s1\<lparr>world := w\<rparr>)) \<and>
      (fst (fst (serve rt api (POST_order_market r) s)) = 200 \<longrightarrow> (\<exists>kvs. result = PDict kvs))) \<and>
    (price r = Some p \<and>
     invoke api c (Place_limit_order (token_id r) (side r) (amount r) p) (world s1) = (Inr result, w) \<longrightarrow>
      (\<forall>kvs. result = PDict kvs \<longrightarrow>
         serve rt api (POST_order_limit r) s =
           ((200, PDict [(''success'', PBool True),
                         (''order_id'', case map_of kvs ''id'' of None \<Rightarrow> PNone | Some v \<Rightarrow> v),
                         (''status'', case map_of kvs ''status'' of None \<Rightarrow> PNone | Some v \<Rightarrow> v)]),
            s1\<lparr>world := w\<rparr>)) \<and>
      (fst (fst (serve rt api (POST_order_limit r) s)) = 200 \<longrightarrow> (\<exists>kvs. result = PDict kvs)))"
proof (intro conjI impI)
  assume i: "invoke api c (Place_market_order (token_id r) (side r) (amount r)) (world s1) = (Inr result, w)"
  from assms i show "\<forall>kvs. result = PDict kvs \<longrightarrow>
         serve rt api (POST_order_market r) s =
           ((200, PDict [(''success'', PBool True),
                         (''order_id'', case map_of kvs ''id'' of None \<Rightarrow> PNone | Some v \<Rightarrow> v),
                         (''status'', case map_of kvs ''status'' of None \<Rightarrow> PNone | Some v \<Rightarrow> v),
                         (''filled_amount'', case map_of kvs ''filled_amount'' of None \<Rightarrow> PNone | Some v \<Rightarrow> v)]),
            s1\<lparr>world := w\<rparr>)"
    by (simp add: serve_def place_market_order_def action_defs call_def)
  assume "fst (fst (serve rt api (POST_order_market r) s)) = 200"
  with assms i show "\<exists>kvs. result = PDict kvs"
    by (cases result) (simp_all add: serve_def place_market_order_def action_defs call_def)
next
  assume "price r = Some p \<and>
     invoke api c (Place_limit_order (token_id r) (side r) (amount r) p) (world s1) = (Inr result, w)"
  then have p: "price r = Some p"
    and i: "invoke api c (Place_limit_order (token_id r) (side r) (amount r) p) (world s1) = (Inr result, w)"
    by simp_all
  from assms p i show "\<forall>kvs. result = PDict kvs \<longrightarrow>
         serve rt api (POST_order_limit r) s =
           ((200, PDict [(''success'', PBool True),
                         (''order_id'', case map_of kvs ''id'' of None \<Rightarrow> PNone | Some v \<Rightarrow> v),
                         (''status'', case map_of kvs ''status'' of None \<Rightarrow> PNone | Some v \<Rightarrow> v)]),
            s1\<lparr>world := w\<rparr>)"
    by (simp add: serve_def place_limit_order_def action_defs call_def)
  assume "fst (fst (serve rt api (POST_order_limit r) s)) = 200"
  with assms p i show "\<exists>kvs. result = PDict kvs"
    by (cases result) (simp_all add: serve_def place_limit_order_def action_defs call_def)
qed

text \<open>
  The theorem at the specification's scenario for a market order, and at a limit order
  whose result has an \<open>id\<close> and no \<open>status\<close>.
\<close>

theorem order_placement_passes_fields_through_witness:
  "serve sample_runtime scripted
     (POST_order_market \<lparr>token_id = ''T1'', side = ''BUY'', amount = Finite 10, price = None\<rparr>)
     (fresh [Inr PNone, Inr (PDict [(''id'', PStr ''O1''), (''status'', PStr ''FILLED''), (''filled_amount'', PInt 10)])]) =
     ((200, PDict [(''success'', PBool True), (''order_id'', PStr ''O1''), (''status'', PStr ''FILLED''),
                   (''filled_amount'', PInt 10)]),
      \<lparr>polymarket_client = Some (), world = []\<rparr>) \<and>
   serve sample_runtime scripted
     (POST_order_limit \<lparr>token_id = ''T1'', side = ''SELL'', amount = Finite 10, price = Some (Finite 3)\<rparr>)
     (fresh [Inr PNone, Inr (PDict [(''id'', PStr ''O2'')])]) =
     ((200, PDict [(''success'', PBool True), (''order_id'', PStr ''O2''), (''status'', PNone)]),
      \<lparr>polymarket_client = Some (), world = []\<rparr>)"
proof -
  have g1: "get_client scripted
      (fresh [Inr PNone, Inr (PDict [(''id'', PStr ''O1''), (''status'', PStr ''FILLED''), (''filled_amount'', PInt 10)])]) =
      (Inr (), \<lparr>polymarket_client = Some (),
        world = [Inr (PDict [(''id'', PStr ''O1''), (''status'', PStr ''FILLED''), (''filled_amount'', PInt 10)])]\<rparr>)"
    by (simp add: get_client_def double_defs)
  have g2: "get_client scripted (fresh [Inr PNone, Inr (PDict [(''id'', PStr ''O2'')])]) =
      (Inr (), \<lparr>polymarket_client = Some (), world = [Inr (PDict [(''id'', PStr ''O2'')])]\<rparr>)"
    by (simp add: get_client_def double_defs)
  have i1: "invoke scripted () (Place_market_order ''T1'' ''BUY'' (Finite 10))
      [Inr (PDict [(''id'', PStr ''O1''), (''status'', PStr ''FILLED''), (''filled_amount'', PInt 10)])] =
      (Inr (PDict [(''id'', PStr ''O1''), (''status'', PStr ''FILLED''), (''filled_amount'', PInt 10)]), [])"
    by (simp add: double_defs)
  have i2: "invoke scripted () (Place_limit_order ''T1'' ''SELL'' (Finite 10) (Finite 3))
      [Inr (PDict [(''id'', PStr ''O2'')])] = (Inr (PDict [(''id'', PStr ''O2'')]), [])"
    by (simp add: double_defs)
  from order_placement_passes_fields_through [OF g1, THEN conjunct1,
      of "\<lparr>token_id = ''T1'', side = ''BUY'', amount = Finite 10, price = None\<rparr>"
         "PDict [(''id'', PStr ''O1''), (''status'', PStr ''FILLED''), (''filled_amount'', PInt 10)]" "[]"
         sample_runtime] i1
  have a: "serve sample_runtime scripted
     (POST_order_market \<lparr>token_id = ''T1'', side = ''BUY'', amount = Finite 10, price = None\<rparr>)
     (fresh [Inr PNone, Inr (PDict [(''id'', PStr ''O1''), (''status'', PStr ''FILLED''), (''filled_amount'', PInt 10)])]) =
     ((200, PDict [(''success'', PBool True), (''order_id'', PStr ''O1''), (''status'', PStr ''FILLED''),
                   (''filled_amount'', PInt 10)]),
      \<lparr>polymarket_client = Some (), world = []\<rparr>)"
    by simp
  from order_placement_passes_fields_through [OF g2, THEN conjunct2,
      of "\<lparr>token_id = ''T1'', side = ''SELL'', amount = Finite 10, price = Some (Finite 3)\<rparr>"
         "Finite 3" "PDict [(''id'', PStr ''O2'')]" "[]" sample_runtime] i2
  have b: "serve sample_runtime scripted
     (POST_order_limit \<lparr>token_id = ''T1'', side = ''SELL'', amount = Finite 10, price = Some (Finite 3)\<rparr>)
     (fresh [Inr PNone, Inr (PDict [(''id'', PStr ''O2'')])]) =
     ((200, PDict [(''success'', PBool True), (''order_id'', PStr ''O2''), (''status'', PNone)]),
      \<lparr>polymarket_client = Some (), world = []\<rparr>)"
    by simp
  from a b show ?thesis by simp
qed

end
